theory Spec2Isabelle
  imports Complex_Main
begin

section \<open>Values: scalars, tensors, distributions, traces\<close>

text \<open>
  A floating-point scalar (a Python float, or a zero-dimensional tensor) is a finite
  value, an infinity or not-a-number.  Finite values are rationals: rounding is not
  modelled.  The only arithmetic facts the development relies on are exact in IEEE 754
  as well: \<open>x - x\<close> is zero for finite \<open>x\<close> and not-a-number otherwise, and a sum of
  one term divided by one is that term.
\<close>

datatype scalar = Val rat | PosInf | NegInf | NaN

fun isnan :: "scalar \<Rightarrow> bool" where
  "isnan NaN = True"
| "isnan _ = False"

fun scalar_neg :: "scalar \<Rightarrow> scalar" where
  "scalar_neg (Val a) = Val (- a)"
| "scalar_neg PosInf = NegInf"
| "scalar_neg NegInf = PosInf"
| "scalar_neg NaN = NaN"

fun scalar_add :: "scalar \<Rightarrow> scalar \<Rightarrow> scalar" where
  "scalar_add (Val a) (Val b) = Val (a + b)"
| "scalar_add NaN _ = NaN"
| "scalar_add _ NaN = NaN"
| "scalar_add PosInf NegInf = NaN"
| "scalar_add NegInf PosInf = NaN"
| "scalar_add PosInf _ = PosInf"
| "scalar_add NegInf _ = NegInf"
| "scalar_add (Val a) b = b"

fun is_finite :: "scalar \<Rightarrow> bool" where
  "is_finite (Val _) = True"
| "is_finite _ = False"

definition scalar_sub :: "scalar \<Rightarrow> scalar \<Rightarrow> scalar" where
  "scalar_sub a b = scalar_add a (scalar_neg b)"

fun scalar_scale :: "rat \<Rightarrow> scalar \<Rightarrow> scalar" where
  "scalar_scale c (Val a) = Val (c * a)"
| "scalar_scale c NaN = NaN"
| "scalar_scale c PosInf = (if c = 0 then NaN else if 0 < c then PosInf else NegInf)"
| "scalar_scale c NegInf = (if c = 0 then NaN else if 0 < c then NegInf else PosInf)"

text \<open>A tensor is its shape and its entries in row-major order.\<close>

record tensor =
  shape :: "nat list"
  entries :: "scalar list"

text \<open>
  A distribution object is a descriptor: its family and its named attributes
  (\<open>loc\<close>, \<open>scale\<close>, \<open>concentration0\<close>, ...), or \<open>Independent\<close> around a base
  distribution.
\<close>

datatype dist = Dist string "(string \<times> tensor) list" | Independent dist

text \<open>
  The \<open>entropy_term\<close> of a site's score parts is a tensor, or the integer \<open>0\<close>
  where the library has no entropy term for the site.
\<close>

datatype entropy = EntropyTensor tensor | EntropyZero

text \<open>
  A trace site is a dictionary; the keys the program reads are fields here.  The keys
  \<open>log_prob_sum\<close> and \<open>score_parts\<close> exist only once the trace's log-probabilities
  have been computed, so they are optional.  A trace is the ordered mapping \<open>nodes\<close>
  from site names to sites.
\<close>

record site =
  site_type :: string
  site_value :: tensor
  site_fn :: dist
  log_prob_sum :: "scalar option"
  entropy_term :: "entropy option"
  is_observed :: bool

type_synonym trace = "(string \<times> site) list"

type_synonym pdict = "(string \<times> tensor) list"

type_synonym metrics = "(string \<times> scalar) list"

datatype error =
    AssertionError "string list"
  | AttributeError string
  | KeyError string
  | IndexError
  | ValueError
  | NanLossError metrics
  | RuntimeError
  | NotImplementedError
  | PlainException
  | LibraryError string

text \<open>
  \<open>NanLossError\<close> is the \<open>ValueError\<close> that \<open>training_step\<close> raises, with the
  metrics its message prints; \<open>ValueError\<close> is the one of a failed unpacking.
  \<open>LibraryError\<close> stands for whatever a collaborator raises.
\<close>

text \<open>Assignment \<open>d[k] = v\<close> on a dictionary kept in insertion order.\<close>

fun dict_set :: "string \<Rightarrow> 'v \<Rightarrow> (string \<times> 'v) list \<Rightarrow> (string \<times> 'v) list" where
  "dict_set k v [] = [(k, v)]"
| "dict_set k v ((k', v') # d) =
     (if k' = k then (k, v) # d else (k', v') # dict_set k v d)"

text \<open>A run of assignments \<open>d[k1] = v1; d[k2] = v2; ...\<close>, in order.\<close>

definition dict_assign :: "(string \<times> 'v) list \<Rightarrow> (string \<times> 'v) list \<Rightarrow> (string \<times> 'v) list" where
  "dict_assign d kvs = foldl (\<lambda>acc (k, v). dict_set k v acc) d kvs"

definition dict_get :: "(string \<times> 'v) list \<Rightarrow> string \<Rightarrow> error + 'v" where
  "dict_get d k = (case map_of d k of None \<Rightarrow> Inl (KeyError k) | Some v \<Rightarrow> Inr v)"

definition bind_err :: "error + 'a \<Rightarrow> ('a \<Rightarrow> error + 'b) \<Rightarrow> error + 'b" where
  "bind_err r f = (case r of Inl e \<Rightarrow> Inl e | Inr a \<Rightarrow> f a)"

section \<open>The world the program runs in\<close>

text \<open>
  The mutable state: the parameter store, the state of the process-wide random number
  generator, the \<open>trace_storage\<close> dictionary of the objective, the text entries sent
  to the tracker of the run (tag, epoch, metrics), and a log of the calls made to the
  model's collaborators, each with its arguments and, but for the guide, what it
  returned or raised.
\<close>

type_synonym params = "(string \<times> tensor) list"

datatype call =
    GuideCall pdict
  | InferExogeneousCall tensor pdict "error + pdict"
  | PyroSampleCall dist "error + tensor"
  | SampleCall pdict nat "error + tensor list"
  | SampleScmCall pdict pdict nat "error + tensor list"

record world =
  params :: params
  rng :: nat
  trace_storage :: "string \<rightharpoonup> trace option"
  logger :: "(string \<times> nat \<times> metrics) list"
  calls :: "call list"

text \<open>
  The collaborators that are not part of this file: the concrete guide (abstract in
  \<open>BaseVISEM\<close>, where it raises \<open>NotImplementedError\<close>), \<open>infer_exogeneous\<close>,
  the generative \<open>sample\<close> and \<open>sample_scm\<close> under the \<open>condition\<close> and \<open>do\<close>
  handlers, \<open>pyro.sample\<close>, \<open>torch.rand_like\<close>, and the superclass estimator: its
  \<open>_get_trace\<close> on \<open>svi_model\<close> and the guide, the loss it computes from the traces
  of the particles, and the optimizer's update.  Each takes the parameters it reads and
  the generator state it advances.
\<close>

record env =
  guide :: "params \<Rightarrow> pdict \<Rightarrow> nat \<Rightarrow> (error + tensor \<times> trace) \<times> nat"
  infer_exogeneous :: "params \<Rightarrow> tensor \<Rightarrow> pdict \<Rightarrow> nat \<Rightarrow> (error + pdict) \<times> nat"
  pyro_sample :: "dist \<Rightarrow> nat \<Rightarrow> (error + tensor) \<times> nat"
  sample_conditioned :: "params \<Rightarrow> pdict \<Rightarrow> nat \<Rightarrow> nat \<Rightarrow> (error + tensor list) \<times> nat"
  sample_scm_do :: "params \<Rightarrow> pdict \<Rightarrow> pdict \<Rightarrow> nat \<Rightarrow> nat \<Rightarrow> (error + tensor list) \<times> nat"
  rand_like :: "tensor \<Rightarrow> nat \<Rightarrow> tensor \<times> nat"
  super_get_trace :: "params \<Rightarrow> pdict \<Rightarrow> nat \<Rightarrow> (error + trace \<times> trace) \<times> nat"
  elbo_loss :: "(trace \<times> trace) list \<Rightarrow> scalar"
  optim_update :: "(trace \<times> trace) list \<Rightarrow> params \<Rightarrow> params"
  trace_svi_guide :: "params \<Rightarrow> pdict \<Rightarrow> nat \<Rightarrow> (error + trace) \<times> nat"
  trace_svi_model_replay :: "params \<Rightarrow> trace \<Rightarrow> pdict \<Rightarrow> nat \<Rightarrow> (error + trace) \<times> nat"

section \<open>CustomELBO\<close>

text \<open>\<open>CustomELBO.__init__\<close>: \<open>self.trace_storage = {'model': None, 'guide': None}\<close>.\<close>

definition init_trace_storage :: "string \<rightharpoonup> trace option" where
  "init_trace_storage = [''model'' \<mapsto> None, ''guide'' \<mapsto> None]"

text \<open>The superclass's \<open>_get_trace\<close>: it knows nothing of \<open>trace_storage\<close>.\<close>

definition TraceGraph_get_trace :: "env \<Rightarrow> pdict \<Rightarrow> world \<Rightarrow> (error + trace \<times> trace) \<times> world" where
  "TraceGraph_get_trace ev batch w =
     (case super_get_trace ev (params w) batch (rng w) of
        (r, g) \<Rightarrow> (r, w\<lparr>rng := g\<rparr>))"

text \<open>
  \<open>CustomELBO._get_trace\<close>, lines 26 to 32: both assignments store \<open>model_trace\<close>.
\<close>

definition CustomELBO_get_trace :: "env \<Rightarrow> pdict \<Rightarrow> world \<Rightarrow> (error + trace \<times> trace) \<times> world" where
  "CustomELBO_get_trace ev batch w =
     (case TraceGraph_get_trace ev batch w of
        (Inl e, w1) \<Rightarrow> (Inl e, w1)
      | (Inr (model_trace, guide_trace), w1) \<Rightarrow>
          (Inr (model_trace, guide_trace),
           w1\<lparr>trace_storage := ((trace_storage w1)(''model'' \<mapsto> Some model_trace))
                                   (''guide'' \<mapsto> Some model_trace)\<rparr>))"

section \<open>Diagnostics: get_trace_metrics\<close>

text \<open>\<open>trace.nodes[name]['log_prob_sum']\<close>.\<close>

definition node_log_prob_sum :: "trace \<Rightarrow> string \<Rightarrow> error + scalar" where
  "node_log_prob_sum t name =
     bind_err (dict_get t name)
       (\<lambda>s. case log_prob_sum s of None \<Rightarrow> Inl (KeyError ''log_prob_sum'') | Some v \<Rightarrow> Inr v)"

text \<open>\<open>obj.nodes\<close> on a stored entry: \<open>None\<close> has no such attribute.\<close>

definition nodes_of :: "trace option \<Rightarrow> error + trace" where
  "nodes_of entry = (case entry of None \<Rightarrow> Inl (AttributeError ''nodes'') | Some t \<Rightarrow> Inr t)"

definition storage_get :: "(string \<rightharpoonup> trace option) \<Rightarrow> string \<Rightarrow> error + trace option" where
  "storage_get st k = (case st k of None \<Rightarrow> Inl (KeyError k) | Some entry \<Rightarrow> Inr entry)"

text \<open>
  \<open>SVIExperiment.get_trace_metrics\<close>, lines 220 to 235, statement by statement; the
  \<open>batch\<close> argument is not used by the source.
\<close>

definition get_trace_metrics :: "world \<Rightarrow> error + metrics" where
  "get_trace_metrics w =
     bind_err (storage_get (trace_storage w) ''model'') (\<lambda>model.
     bind_err (storage_get (trace_storage w) ''guide'') (\<lambda>guide.
     bind_err (bind_err (nodes_of model) (\<lambda>t. node_log_prob_sum t ''x'')) (\<lambda>px.
     bind_err (bind_err (nodes_of model) (\<lambda>t. node_log_prob_sum t ''age'')) (\<lambda>page.
     bind_err (bind_err (nodes_of model) (\<lambda>t. node_log_prob_sum t ''sex'')) (\<lambda>psex.
     bind_err (bind_err (nodes_of model) (\<lambda>t. node_log_prob_sum t ''sex'')) (\<lambda>pvv.
     bind_err (bind_err (nodes_of model) (\<lambda>t. node_log_prob_sum t ''sex'')) (\<lambda>pbv.
     bind_err (bind_err (nodes_of model) (\<lambda>t. node_log_prob_sum t ''z'')) (\<lambda>pz.
     bind_err (bind_err (nodes_of guide) (\<lambda>t. node_log_prob_sum t ''z'')) (\<lambda>qz.
     bind_err (bind_err (nodes_of model) (\<lambda>t. node_log_prob_sum t ''z'')) (\<lambda>pz2.
     bind_err (bind_err (nodes_of guide) (\<lambda>t. node_log_prob_sum t ''z'')) (\<lambda>qz2.
       Inr (dict_assign []
         [(''log p(x)'', px),
          (''log p(age)'', page),
          (''log p(sex)'', psex),
          (''log p(ventricle_volume)'', pvv),
          (''log p(brain_volume)'', pbv),
          (''log p(z) - log q(z)'', scalar_sub pz qz),
          (''p(z)'', pz2),
          (''q(z)'', qz2)]))))))))))))"

section \<open>The inference engine\<close>

text \<open>
  The estimator's particle loop (library code): one call of the object's \<open>_get_trace\<close>
  method per particle.  The method is a parameter, as the call is dispatched on the
  object: \<open>CustomELBO_get_trace\<close> for the wrapper, \<open>TraceGraph_get_trace\<close> for the
  estimator it wraps.
\<close>

fun get_traces ::
  "(pdict \<Rightarrow> world \<Rightarrow> (error + trace \<times> trace) \<times> world) \<Rightarrow> nat \<Rightarrow> pdict \<Rightarrow> world
     \<Rightarrow> (error + (trace \<times> trace) list) \<times> world" where
  "get_traces gt 0 batch w = (Inr [], w)"
| "get_traces gt (Suc n) batch w =
     (case gt batch w of
        (Inl e, w1) \<Rightarrow> (Inl e, w1)
      | (Inr p, w1) \<Rightarrow>
          (case get_traces gt n batch w1 of
             (Inl e, w2) \<Rightarrow> (Inl e, w2)
           | (Inr ps, w2) \<Rightarrow> (Inr (p # ps), w2)))"

text \<open>
  \<open>SVI.step\<close>: the loss and its gradients from the particles' traces, then one update
  of the parameters by the optimizer.  \<open>SVI.evaluate_loss\<close>: the loss only.  The
  library is used with at least one particle; with none this model runs no trace and
  still yields a loss, which is not what the library does.
\<close>

definition SVI_step ::
  "(pdict \<Rightarrow> world \<Rightarrow> (error + trace \<times> trace) \<times> world) \<Rightarrow> env \<Rightarrow> nat \<Rightarrow> pdict \<Rightarrow> world
     \<Rightarrow> (error + scalar) \<times> world" where
  "SVI_step gt ev n batch w =
     (case get_traces gt n batch w of
        (Inl e, w1) \<Rightarrow> (Inl e, w1)
      | (Inr trs, w1) \<Rightarrow>
          (Inr (elbo_loss ev trs), w1\<lparr>params := optim_update ev trs (params w1)\<rparr>))"

definition SVI_evaluate_loss ::
  "(pdict \<Rightarrow> world \<Rightarrow> (error + trace \<times> trace) \<times> world) \<Rightarrow> env \<Rightarrow> nat \<Rightarrow> pdict \<Rightarrow> world
     \<Rightarrow> (error + scalar) \<times> world" where
  "SVI_evaluate_loss gt ev n batch w =
     (case get_traces gt n batch w of
        (Inl e, w1) \<Rightarrow> (Inl e, w1)
      | (Inr trs, w1) \<Rightarrow> (Inr (elbo_loss ev trs), w1))"

text \<open>
  What \<open>SVIExperiment\<close> reads of its configuration and of the trainer:
  \<open>hparams.validate\<close>, \<open>hparams.num_svi_particles\<close> and \<open>current_epoch\<close>.
\<close>

record svi_experiment =
  validate :: bool
  num_svi_particles :: nat
  current_epoch :: nat

text \<open>\<open>self.svi\<close> is built on \<open>self.svi_loss\<close>, a \<open>CustomELBO\<close>.\<close>

definition svi_step :: "env \<Rightarrow> svi_experiment \<Rightarrow> pdict \<Rightarrow> world \<Rightarrow> (error + scalar) \<times> world" where
  "svi_step ev ex batch w = SVI_step (CustomELBO_get_trace ev) ev (num_svi_particles ex) batch w"

definition svi_evaluate_loss :: "env \<Rightarrow> svi_experiment \<Rightarrow> pdict \<Rightarrow> world \<Rightarrow> (error + scalar) \<times> world" where
  "svi_evaluate_loss ev ex batch w =
     SVI_evaluate_loss (CustomELBO_get_trace ev) ev (num_svi_particles ex) batch w"

subsection \<open>prep_batch\<close>

text \<open>\<open>t.unsqueeze(1)\<close>: a tensor without dimensions has no position 1.\<close>

definition unsqueeze1 :: "tensor \<Rightarrow> error + tensor" where
  "unsqueeze1 t =
     (if shape t = [] then Inl IndexError
      else Inr (t\<lparr>shape := take 1 (shape t) @ [1] @ drop 1 (shape t)\<rparr>))"

definition tensor_scale :: "rat \<Rightarrow> tensor \<Rightarrow> tensor" where
  "tensor_scale c t = t\<lparr>entries := map (scalar_scale c) (entries t)\<rparr>"

definition tensor_add :: "tensor \<Rightarrow> tensor \<Rightarrow> tensor" where
  "tensor_add a b = a\<lparr>entries := map2 scalar_add (entries a) (entries b)\<rparr>"

text \<open>
  \<open>SVIExperiment.prep_batch\<close>, lines 237 to 248.  \<open>.float()\<close> changes the element
  type only and is the identity here.
\<close>

definition prep_batch :: "env \<Rightarrow> pdict \<Rightarrow> world \<Rightarrow> (error + pdict) \<times> world" where
  "prep_batch ev batch w =
     (case
        bind_err (dict_get batch ''image'') (\<lambda>image.
        bind_err (bind_err (dict_get batch ''age'') unsqueeze1) (\<lambda>age.
        bind_err (bind_err (dict_get batch ''sex'') unsqueeze1) (\<lambda>sex.
        bind_err (bind_err (dict_get batch ''ventricle_volume'') unsqueeze1) (\<lambda>ventricle_volume.
        bind_err (bind_err (dict_get batch ''brain_volume'') unsqueeze1) (\<lambda>brain_volume.
          Inr (tensor_scale 255 image, age, sex, ventricle_volume, brain_volume))))))
      of
        Inl e \<Rightarrow> (Inl e, w)
      | Inr (x, age, sex, ventricle_volume, brain_volume) \<Rightarrow>
          (case rand_like ev x (rng w) of
             (noise, g) \<Rightarrow>
               (Inr [(''x'', tensor_add x noise), (''age'', age), (''sex'', sex),
                     (''ventricle_volume'', ventricle_volume), (''brain_volume'', brain_volume)],
                w\<lparr>rng := g\<rparr>)))"

subsection \<open>print_trace_updates\<close>

text \<open>
  \<open>SVIExperiment.print_trace_updates\<close>, lines 176 to 218.  What it prints is not
  modelled, what it raises is.  The two traces come from the collaborators, pruned and
  with their log-probabilities and score parts computed.
\<close>

fun unwrap_independent :: "dist \<Rightarrow> dist" where
  "unwrap_independent (Independent d) = d"
| "unwrap_independent d = d"

fun dist_attr :: "dist \<Rightarrow> string \<Rightarrow> error + tensor" where
  "dist_attr (Dist family attrs) a =
     (case map_of attrs a of None \<Rightarrow> Inl (AttributeError a) | Some t \<Rightarrow> Inr t)"
| "dist_attr (Independent d) a = Inl (AttributeError a)"

text \<open>\<open>t[0]\<close>, of which only the failure matters here.\<close>

definition first_row_exists :: "tensor \<Rightarrow> error + unit" where
  "first_row_exists t =
     (case shape t of [] \<Rightarrow> Inl IndexError | n # _ \<Rightarrow> if n = 0 then Inl IndexError else Inr ())"

fun print_model_sites :: "trace \<Rightarrow> error + unit" where
  "print_model_sites [] = Inr ()"
| "print_model_sites ((name, s) # rest) =
     (if site_type s = ''sample'' then
        (case log_prob_sum s of
           None \<Rightarrow> Inl (KeyError ''log_prob_sum'')
         | Some lp \<Rightarrow>
             if isnan lp then
               bind_err (first_row_exists (site_value s)) (\<lambda>_.
               bind_err (dist_attr (unwrap_independent (site_fn s)) ''concentration0'') (\<lambda>_.
               bind_err (dist_attr (unwrap_independent (site_fn s)) ''concentration1'') (\<lambda>_.
                 Inl PlainException)))
             else print_model_sites rest)
      else print_model_sites rest)"

fun print_guide_sites :: "trace \<Rightarrow> error + unit" where
  "print_guide_sites [] = Inr ()"
| "print_guide_sites ((name, s) # rest) =
     (if site_type s = ''sample'' then
        (case entropy_term s of
           None \<Rightarrow> Inl (KeyError ''score_parts'')
         | Some EntropyZero \<Rightarrow> Inl (AttributeError ''sum'')
         | Some (EntropyTensor _) \<Rightarrow> print_guide_sites rest)
      else print_guide_sites rest)"

definition print_trace_updates :: "env \<Rightarrow> pdict \<Rightarrow> world \<Rightarrow> (error + unit) \<times> world" where
  "print_trace_updates ev batch w =
     (case trace_svi_guide ev (params w) batch (rng w) of
        (Inl e, g1) \<Rightarrow> (Inl e, w\<lparr>rng := g1\<rparr>)
      | (Inr guide_trace, g1) \<Rightarrow>
          (case trace_svi_model_replay ev (params w) guide_trace batch g1 of
             (Inl e, g2) \<Rightarrow> (Inl e, w\<lparr>rng := g2\<rparr>)
           | (Inr model_trace, g2) \<Rightarrow>
               (bind_err (print_model_sites model_trace) (\<lambda>_. print_guide_sites guide_trace),
                w\<lparr>rng := g2\<rparr>)))"

subsection \<open>training_step, validation_step, test_step\<close>

text \<open>A Python value of the mappings the steps return.\<close>

datatype pyval = PyFloat scalar | PyTensor tensor | PyDict "(string \<times> pyval) list"

text \<open>\<open>SVIExperiment.training_step\<close>, lines 250 to 268.\<close>

definition training_step ::
  "env \<Rightarrow> svi_experiment \<Rightarrow> pdict \<Rightarrow> world \<Rightarrow> (error + (string \<times> pyval) list) \<times> world" where
  "training_step ev ex batch0 w =
     (case prep_batch ev batch0 w of
        (Inl e, w1) \<Rightarrow> (Inl e, w1)
      | (Inr batch, w1) \<Rightarrow>
          (case (if validate ex then print_trace_updates ev batch w1 else (Inr (), w1)) of
             (Inl e, w2) \<Rightarrow> (Inl e, w2)
           | (Inr _, w2) \<Rightarrow>
               (case svi_step ev ex batch w2 of
                  (Inl e, w3) \<Rightarrow> (Inl e, w3)
                | (Inr loss, w3) \<Rightarrow>
                    (case get_trace_metrics w3 of
                       Inl e \<Rightarrow> (Inl e, w3)
                     | Inr metrics \<Rightarrow>
                         if isnan loss then
                           (Inl (NanLossError metrics),
                            w3\<lparr>logger := logger w3 @ [(''nan'', current_epoch ex, metrics)]\<rparr>)
                         else
                           (Inr [(''loss'', PyTensor \<lparr>shape = [1], entries = [loss]\<rparr>),
                                 (''log'', PyDict
                                    (dict_set ''train/loss'' (PyFloat loss)
                                      (dict_assign []
                                        (map (\<lambda>(k, v). (''train/'' @ k, PyFloat v)) metrics))))],
                            w3)))))"

text \<open>
  \<open>SVIExperiment.validation_step\<close>, lines 270 to 277; the result is
  \<open>{'loss': loss, **metrics}\<close>.
\<close>

definition validation_step ::
  "env \<Rightarrow> svi_experiment \<Rightarrow> pdict \<Rightarrow> world \<Rightarrow> (error + metrics) \<times> world" where
  "validation_step ev ex batch0 w =
     (case prep_batch ev batch0 w of
        (Inl e, w1) \<Rightarrow> (Inl e, w1)
      | (Inr batch, w1) \<Rightarrow>
          (case svi_evaluate_loss ev ex batch w1 of
             (Inl e, w2) \<Rightarrow> (Inl e, w2)
           | (Inr loss, w2) \<Rightarrow>
               (case get_trace_metrics w2 of
                  Inl e \<Rightarrow> (Inl e, w2)
                | Inr metrics \<Rightarrow> (Inr (dict_assign [(''loss'', loss)] metrics), w2))))"

text \<open>\<open>SVIExperiment.test_step\<close>, lines 279 to 286.\<close>

definition test_step ::
  "env \<Rightarrow> svi_experiment \<Rightarrow> pdict \<Rightarrow> world \<Rightarrow> (error + metrics) \<times> world" where
  "test_step ev ex batch0 w =
     (case prep_batch ev batch0 w of
        (Inl e, w1) \<Rightarrow> (Inl e, w1)
      | (Inr batch, w1) \<Rightarrow>
          (case svi_evaluate_loss ev ex batch w1 of
             (Inl e, w2) \<Rightarrow> (Inl e, w2)
           | (Inr loss, w2) \<Rightarrow>
               (case get_trace_metrics w2 of
                  Inl e \<Rightarrow> (Inl e, w2)
                | Inr metrics \<Rightarrow> (Inr (dict_assign [(''loss'', loss)] metrics), w2))))"

section \<open>BaseVISEM: infer, reconstruct, counterfactual\<close>

text \<open>
  Calls to the collaborators: each reads the parameters, advances the generator and is
  written to the call log, whether or not it raises.
\<close>

definition call_guide :: "env \<Rightarrow> pdict \<Rightarrow> world \<Rightarrow> (error + tensor \<times> trace) \<times> world" where
  "call_guide ev obs w =
     (case guide ev (params w) obs (rng w) of
        (r, g) \<Rightarrow> (r, w\<lparr>rng := g, calls := calls w @ [GuideCall obs]\<rparr>))"

definition call_infer_exogeneous :: "env \<Rightarrow> tensor \<Rightarrow> pdict \<Rightarrow> world \<Rightarrow> (error + pdict) \<times> world" where
  "call_infer_exogeneous ev z obs w =
     (case infer_exogeneous ev (params w) z obs (rng w) of
        (r, g) \<Rightarrow> (r, w\<lparr>rng := g, calls := calls w @ [InferExogeneousCall z obs r]\<rparr>))"

definition call_pyro_sample :: "env \<Rightarrow> dist \<Rightarrow> world \<Rightarrow> (error + tensor) \<times> world" where
  "call_pyro_sample ev d w =
     (case pyro_sample ev d (rng w) of
        (r, g) \<Rightarrow> (r, w\<lparr>rng := g, calls := calls w @ [PyroSampleCall d r]\<rparr>))"

definition call_sample :: "env \<Rightarrow> pdict \<Rightarrow> nat \<Rightarrow> world \<Rightarrow> (error + tensor list) \<times> world" where
  "call_sample ev data n w =
     (case sample_conditioned ev (params w) data n (rng w) of
        (r, g) \<Rightarrow> (r, w\<lparr>rng := g, calls := calls w @ [SampleCall data n r]\<rparr>))"

definition call_sample_scm ::
  "env \<Rightarrow> pdict \<Rightarrow> pdict \<Rightarrow> nat \<Rightarrow> world \<Rightarrow> (error + tensor list) \<times> world" where
  "call_sample_scm ev exogeneous condition n w =
     (case sample_scm_do ev (params w) exogeneous condition n (rng w) of
        (r, g) \<Rightarrow> (r, w\<lparr>rng := g, calls := calls w @ [SampleScmCall exogeneous condition n r]\<rparr>))"

definition required_data :: "string list" where
  "required_data = [''x'', ''sex'', ''age'', ''ventricle_volume'', ''brain_volume'']"

text \<open>
  \<open>BaseVISEM.infer\<close>, lines 88 to 97.  The observation is the keyword dictionary, in
  the order the caller wrote it; the assertion's message prints the tuple of its keys.
  \<open>infer_z\<close> returns what the guide returns.
\<close>

definition infer :: "env \<Rightarrow> pdict \<Rightarrow> world \<Rightarrow> (error + pdict) \<times> world" where
  "infer ev obs w =
     (if set (map fst obs) \<noteq> set required_data then (Inl (AssertionError (map fst obs)), w)
      else
        (case call_guide ev obs w of
           (Inl e, w1) \<Rightarrow> (Inl e, w1)
         | (Inr (z, _), w1) \<Rightarrow>
             (case call_infer_exogeneous ev z obs w1 of
                (Inl e, w2) \<Rightarrow> (Inl e, w2)
              | (Inr exogeneous, w2) \<Rightarrow> (Inr (dict_set ''z'' z exogeneous), w2))))"

text \<open>\<open>pyro.poutine.trace(self.guide).get_trace(**obs).nodes['z']['fn']\<close>.\<close>

definition guide_z_dist :: "env \<Rightarrow> pdict \<Rightarrow> world \<Rightarrow> (error + dist) \<times> world" where
  "guide_z_dist ev obs w =
     (case call_guide ev obs w of
        (Inl e, w1) \<Rightarrow> (Inl e, w1)
      | (Inr (_, guide_trace), w1) \<Rightarrow>
          (bind_err (dict_get guide_trace ''z'') (\<lambda>s. Inr (site_fn s)), w1))"

text \<open>\<open>t.shape[0]\<close>.\<close>

definition shape0 :: "tensor \<Rightarrow> error + nat" where
  "shape0 t = (case shape t of [] \<Rightarrow> Inl IndexError | n # _ \<Rightarrow> Inr n)"

definition scalar_div_count :: "scalar \<Rightarrow> nat \<Rightarrow> scalar" where
  "scalar_div_count s n = scalar_scale (1 / of_nat n) s"

text \<open>
  \<open>torch.stack(ts).mean(0)\<close>: \<open>stack\<close> refuses an empty list and tensors of different
  shapes; the mean over the new first dimension is the entrywise sum divided by the
  number of tensors.
\<close>

definition stack_mean :: "tensor list \<Rightarrow> error + tensor" where
  "stack_mean ts =
     (case ts of
        [] \<Rightarrow> Inl RuntimeError
      | t # rest \<Rightarrow>
          if list_all (\<lambda>u. shape u = shape t) rest then
            Inr \<lparr>shape = shape t,
                 entries = map (\<lambda>s. scalar_div_count s (length ts))
                             (foldl (map2 scalar_add) (entries t) (map entries rest))\<rparr>
          else Inl RuntimeError)"

text \<open>
  The particle loop of \<open>BaseVISEM.reconstruct\<close>, lines 105 to 109: \<open>k\<close> iterations
  are left, \<open>recons\<close> is the list so far.  \<open>recon, *_ = ...\<close> needs one value at
  least.
\<close>

fun reconstruct_loop ::
  "env \<Rightarrow> dist \<Rightarrow> tensor \<Rightarrow> pdict \<Rightarrow> nat \<Rightarrow> tensor list \<Rightarrow> world
     \<Rightarrow> (error + tensor list) \<times> world" where
  "reconstruct_loop ev z_dist x data 0 recons w = (Inr recons, w)"
| "reconstruct_loop ev z_dist x data (Suc k) recons w =
     (case call_pyro_sample ev z_dist w of
        (Inl e, w1) \<Rightarrow> (Inl e, w1)
      | (Inr z, w1) \<Rightarrow>
          (case shape0 x of
             Inl e \<Rightarrow> (Inl e, w1)
           | Inr n \<Rightarrow>
               (case call_sample ev (data @ [(''z'', z)]) n w1 of
                  (Inl e, w2) \<Rightarrow> (Inl e, w2)
                | (Inr [], w2) \<Rightarrow> (Inl ValueError, w2)
                | (Inr (recon # _), w2) \<Rightarrow>
                    reconstruct_loop ev z_dist x data k (recons @ [recon]) w2)))"

text \<open>
  \<open>BaseVISEM.reconstruct\<close>, lines 100 to 110.  \<open>range(num_particles)\<close> is empty for
  a count below one.
\<close>

definition reconstruct ::
  "env \<Rightarrow> tensor \<Rightarrow> tensor \<Rightarrow> tensor \<Rightarrow> tensor \<Rightarrow> tensor \<Rightarrow> int \<Rightarrow> world
     \<Rightarrow> (error + tensor) \<times> world" where
  "reconstruct ev x age sex ventricle_volume brain_volume num_particles w =
     (case guide_z_dist ev
             [(''x'', x), (''sex'', sex), (''age'', age),
              (''ventricle_volume'', ventricle_volume), (''brain_volume'', brain_volume)] w of
        (Inl e, w1) \<Rightarrow> (Inl e, w1)
      | (Inr z_dist, w1) \<Rightarrow>
          (case reconstruct_loop ev z_dist x
                  [(''sex'', sex), (''age'', age),
                   (''ventricle_volume'', ventricle_volume), (''brain_volume'', brain_volume)]
                  (nat num_particles) [] w1 of
             (Inl e, w2) \<Rightarrow> (Inl e, w2)
           | (Inr recons, w2) \<Rightarrow> (stack_mean recons, w2)))"

text \<open>
  The particle loop of \<open>BaseVISEM.counterfactual\<close>, lines 120 to 130.  The default of
  \<open>condition\<close> is \<open>None\<close>, on which \<open>.keys()\<close> is an attribute error.
\<close>

fun counterfactual_loop ::
  "env \<Rightarrow> dist \<Rightarrow> pdict \<Rightarrow> pdict option \<Rightarrow> nat \<Rightarrow> tensor list list \<Rightarrow> world
     \<Rightarrow> (error + tensor list list) \<times> world" where
  "counterfactual_loop ev z_dist obs condition 0 counterfactuals w = (Inr counterfactuals, w)"
| "counterfactual_loop ev z_dist obs condition (Suc k) counterfactuals w =
     (case call_pyro_sample ev z_dist w of
        (Inl e, w1) \<Rightarrow> (Inl e, w1)
      | (Inr z, w1) \<Rightarrow>
          (case call_infer_exogeneous ev z obs w1 of
             (Inl e, w2) \<Rightarrow> (Inl e, w2)
           | (Inr exogeneous0, w2) \<Rightarrow>
               (case condition of
                  None \<Rightarrow> (Inl (AttributeError ''keys''), w2)
                | Some cond \<Rightarrow>
                    (case
                       bind_err
                         (if ''sex'' \<notin> set (map fst cond)
                          then bind_err (dict_get obs ''sex'')
                                 (\<lambda>s. Inr (dict_set ''sex'' s (dict_set ''z'' z exogeneous0)))
                          else Inr (dict_set ''z'' z exogeneous0))
                         (\<lambda>exogeneous.
                            bind_err (bind_err (dict_get obs ''x'') shape0)
                              (\<lambda>n. Inr (exogeneous, n)))
                     of
                       Inl e \<Rightarrow> (Inl e, w2)
                     | Inr (exogeneous, n) \<Rightarrow>
                         (case call_sample_scm ev exogeneous cond n w2 of
                            (Inl e, w3) \<Rightarrow> (Inl e, w3)
                          | (Inr counter, w3) \<Rightarrow>
                              counterfactual_loop ev z_dist obs condition k
                                (counterfactuals @ [counter]) w3)))))"

text \<open>\<open>zip(*xss)\<close>: the columns, as many as the shortest row has entries.\<close>

definition zip_star :: "'a list list \<Rightarrow> 'a list list" where
  "zip_star xss =
     (case xss of
        [] \<Rightarrow> []
      | xs # rest \<Rightarrow>
          map (\<lambda>j. map (\<lambda>ys. ys ! j) xss) [0..<foldl min (length xs) (map length rest)])"

text \<open>
  The dictionary comprehension of line 131 over \<open>zip(names, means)\<close>: \<open>zip\<close> asks for
  a name first and for the next mean after it, and stops when either runs out.
\<close>

fun collect_means :: "pdict \<Rightarrow> string list \<Rightarrow> tensor list list \<Rightarrow> error + pdict" where
  "collect_means d [] cs = Inr d"
| "collect_means d (k # ks) [] = Inr d"
| "collect_means d (k # ks) (c # cs) =
     bind_err (stack_mean c) (\<lambda>v. collect_means (dict_set k v d) ks cs)"

text \<open>\<open>BaseVISEM.counterfactual\<close>, lines 113 to 131.\<close>

definition counterfactual ::
  "env \<Rightarrow> pdict \<Rightarrow> pdict option \<Rightarrow> int \<Rightarrow> world \<Rightarrow> (error + pdict) \<times> world" where
  "counterfactual ev obs condition num_particles w =
     (if set (map fst obs) \<noteq> set required_data then (Inl (AssertionError (map fst obs)), w)
      else
        (case guide_z_dist ev obs w of
           (Inl e, w1) \<Rightarrow> (Inl e, w1)
         | (Inr z_dist, w1) \<Rightarrow>
             (case counterfactual_loop ev z_dist obs condition (nat num_particles) [] w1 of
                (Inl e, w2) \<Rightarrow> (Inl e, w2)
              | (Inr counterfactuals, w2) \<Rightarrow>
                  (collect_means []
                     [''x'', ''z'', ''sex'', ''age'', ''ventricle_volume'', ''brain_volume'']
                     (zip_star counterfactuals),
                   w2))))"

section \<open>Reading the call log\<close>

text \<open>
  The exogenous state the specification describes for one particle of
  \<open>counterfactual\<close>: what \<open>infer_exogeneous\<close> returned, with the drawn \<open>z\<close>, and
  with the observed \<open>sex\<close> unless the intervention names \<open>sex\<close>.
\<close>

definition spec_exogeneous :: "pdict \<Rightarrow> pdict \<Rightarrow> tensor \<Rightarrow> pdict \<Rightarrow> pdict" where
  "spec_exogeneous obs cond z inferred =
     (if ''sex'' \<in> set (map fst cond) then dict_set ''z'' z inferred
      else dict_set ''sex'' (the (map_of obs ''sex'')) (dict_set ''z'' z inferred))"

text \<open>
  A stretch of the call log is in order for \<open>counterfactual\<close> when every call of
  \<open>sample_scm\<close> comes right after a call of \<open>infer_exogeneous\<close> that returned, and
  is given the state above and the intervention.
\<close>

fun scm_calls_checked :: "pdict \<Rightarrow> pdict \<Rightarrow> call list \<Rightarrow> bool" where
  "scm_calls_checked obs cond [] = True"
| "scm_calls_checked obs cond (InferExogeneousCall z obs' (Inr inferred) # SampleScmCall exo c n r # rest) =
     (exo = spec_exogeneous obs cond z inferred \<and> c = cond \<and> scm_calls_checked obs cond rest)"
| "scm_calls_checked obs cond (SampleScmCall exo c n r # rest) = False"
| "scm_calls_checked obs cond (_ # rest) = scm_calls_checked obs cond rest"


text \<open>
  The stretch of the log that \<open>reconstruct\<close> writes for its particles, given the
  distribution, the conditioning data without \<open>z\<close>, the batch size and, per particle,
  the drawn \<open>z\<close> and what the decoder returned.
\<close>

definition particle_calls :: "dist \<Rightarrow> pdict \<Rightarrow> nat \<Rightarrow> (tensor \<times> tensor list) list \<Rightarrow> call list" where
  "particle_calls z_dist data n ps =
     concat (map (\<lambda>(z, outs). [PyroSampleCall z_dist (Inr z),
                                 SampleCall (data @ [(''z'', z)]) n (Inr outs)]) ps)"

text \<open>
  What the specification says of the particles of \<open>reconstruct\<close>, written on the
  collaborators alone: \<open>k\<close> draws from the one distribution, each decoded under the
  conditioning data and its own \<open>z\<close>, the generator passing from one call to the
  next.  The result is the drawn values with what the decoder returned, and the
  generator's last state; none when a draw or a decoding raises.
\<close>

fun spec_particles ::
  "env \<Rightarrow> params \<Rightarrow> dist \<Rightarrow> pdict \<Rightarrow> nat \<Rightarrow> nat \<Rightarrow> nat
     \<Rightarrow> ((tensor \<times> tensor list) list \<times> nat) option" where
  "spec_particles ev p z_dist data n 0 g = Some ([], g)"
| "spec_particles ev p z_dist data n (Suc k) g =
     (case pyro_sample ev z_dist g of
        (Inl e, g1) \<Rightarrow> None
      | (Inr z, g1) \<Rightarrow>
          (case sample_conditioned ev p (data @ [(''z'', z)]) n g1 of
             (Inl e, g2) \<Rightarrow> None
           | (Inr outs, g2) \<Rightarrow>
               (case spec_particles ev p z_dist data n k g2 of
                  None \<Rightarrow> None
                | Some (ps, g3) \<Rightarrow> Some ((z, outs) # ps, g3))))"

text \<open>
  Entry \<open>j\<close> of the mean of a list of tensors, as the specification has it: the sum
  of their entries \<open>j\<close>, first to last, divided by their number.
\<close>

definition spec_mean_entry :: "tensor list \<Rightarrow> nat \<Rightarrow> scalar" where
  "spec_mean_entry ts j =
     scalar_div_count
       (foldl scalar_add (entries (hd ts) ! j) (map (\<lambda>u. entries u ! j) (tl ts)))
       (length ts)"

section \<open>A concrete instance\<close>

text \<open>
  One small instance of the collaborators, on which the theorems below are evaluated:
  a guide whose \<open>z\<close> site has log-probability \<open>-7\<close>, a model trace whose six sites
  have the log-probabilities \<open>-3, -1, -2, -4, -5, -6\<close>, a generator that counts its
  draws, and a decoder that returns the drawn \<open>z\<close> as the image.
\<close>

definition demo_tensor :: "rat \<Rightarrow> tensor" where
  "demo_tensor a = \<lparr>shape = [1], entries = [Val a]\<rparr>"

definition demo_site :: "scalar \<Rightarrow> site" where
  "demo_site lp =
     \<lparr>site_type = ''sample'', site_value = demo_tensor 0, site_fn = Dist ''Normal'' [],
      log_prob_sum = Some lp, entropy_term = Some (EntropyTensor (demo_tensor 0)),
      is_observed = True\<rparr>"

definition demo_model_trace :: trace where
  "demo_model_trace =
     [(''x'', demo_site (Val (-3))), (''age'', demo_site (Val (-1))),
      (''sex'', demo_site (Val (-2))), (''ventricle_volume'', demo_site (Val (-4))),
      (''brain_volume'', demo_site (Val (-5))), (''z'', demo_site (Val (-6)))]"

definition demo_guide_trace :: trace where
  "demo_guide_trace = [(''z'', demo_site (Val (-7)))]"

definition demo_env :: env where
  "demo_env =
     \<lparr>guide = (\<lambda>p obs g. (Inr (demo_tensor 9, demo_guide_trace), Suc g)),
      infer_exogeneous = (\<lambda>p z obs g. (Inr [(''age'', demo_tensor 5)], g)),
      pyro_sample = (\<lambda>d g. (Inr (demo_tensor (of_nat g)), Suc g)),
      sample_conditioned =
        (\<lambda>p data n g. (case map_of data ''z'' of None \<Rightarrow> Inl (LibraryError ''z'')
                                                | Some z \<Rightarrow> Inr [z, demo_tensor 0], g)),
      sample_scm_do =
        (\<lambda>p exogeneous condition n g.
           (case map_of exogeneous ''z'' of None \<Rightarrow> Inl (LibraryError ''z'')
                                          | Some z \<Rightarrow> Inr [z, z], g)),
      rand_like = (\<lambda>t g. (t\<lparr>entries := map (\<lambda>_. Val (1 / 2)) (entries t)\<rparr>, Suc g)),
      super_get_trace = (\<lambda>p batch g. (Inr (demo_model_trace, demo_guide_trace), Suc g)),
      elbo_loss = (\<lambda>trs. Val (of_nat (length trs))),
      optim_update = (\<lambda>trs p. dict_set ''sex_logits'' (demo_tensor 1) p),
      trace_svi_guide = (\<lambda>p batch g. (Inr demo_guide_trace, Suc g)),
      trace_svi_model_replay = (\<lambda>p t batch g. (Inr demo_model_trace, g))\<rparr>"

text \<open>The same instance with a model whose \<open>z\<close> site has a not-a-number log-probability.\<close>

definition nan_model_trace :: trace where
  "nan_model_trace = dict_set ''z'' (demo_site NaN) demo_model_trace"

definition nan_env :: env where
  "nan_env =
     demo_env\<lparr>super_get_trace := (\<lambda>p batch g. (Inr (nan_model_trace, demo_guide_trace), Suc g)),
              elbo_loss := (\<lambda>trs. NaN)\<rparr>"

definition demo_world :: world where
  "demo_world =
     \<lparr>params = [], rng = 0, trace_storage = init_trace_storage, logger = [], calls = []\<rparr>"

definition demo_obs :: pdict where
  "demo_obs =
     [(''x'', demo_tensor 10), (''sex'', demo_tensor 1), (''age'', demo_tensor 60),
      (''ventricle_volume'', demo_tensor 20), (''brain_volume'', demo_tensor 30)]"

definition demo_batch :: pdict where
  "demo_batch =
     [(''image'', demo_tensor (1 / 5)), (''age'', demo_tensor 60), (''sex'', demo_tensor 1),
      (''ventricle_volume'', demo_tensor 20), (''brain_volume'', demo_tensor 30)]"

definition demo_experiment :: svi_experiment where
  "demo_experiment = \<lparr>validate = True, num_svi_particles = 2, current_epoch = 3\<rparr>"

text \<open>What \<open>prep_batch\<close> makes of the concrete batch: \<open>255 / 5 + 1 / 2\<close> for the pixel.\<close>

definition demo_prepared :: pdict where
  "demo_prepared =
     [(''x'', \<lparr>shape = [1], entries = [Val (103 / 2)]\<rparr>),
      (''age'', \<lparr>shape = [1, 1], entries = [Val 60]\<rparr>),
      (''sex'', \<lparr>shape = [1, 1], entries = [Val 1]\<rparr>),
      (''ventricle_volume'', \<lparr>shape = [1, 1], entries = [Val 20]\<rparr>),
      (''brain_volume'', \<lparr>shape = [1, 1], entries = [Val 30]\<rparr>)]"

text \<open>The metrics read from the two concrete model traces.\<close>

definition demo_metrics_list :: metrics where
  "demo_metrics_list =
     [(''log p(x)'', Val (- 3)), (''log p(age)'', Val (- 1)),
      (''log p(sex)'', Val (- 2)), (''log p(ventricle_volume)'', Val (- 2)),
      (''log p(brain_volume)'', Val (- 2)), (''log p(z) - log q(z)'', Val 0),
      (''p(z)'', Val (- 6)), (''q(z)'', Val (- 6))]"

definition nan_metrics_list :: metrics where
  "nan_metrics_list =
     [(''log p(x)'', Val (- 3)), (''log p(age)'', Val (- 1)),
      (''log p(sex)'', Val (- 2)), (''log p(ventricle_volume)'', Val (- 2)),
      (''log p(brain_volume)'', Val (- 2)), (''log p(z) - log q(z)'', NaN),
      (''p(z)'', NaN), (''q(z)'', NaN)]"

text \<open>The data \<open>reconstruct\<close> conditions the decoder on, for the concrete observation.\<close>

definition demo_data :: pdict where
  "demo_data = [(''sex'', demo_tensor 1), (''age'', demo_tensor 60),
               (''ventricle_volume'', demo_tensor 20), (''brain_volume'', demo_tensor 30)]"

section \<open>Basic facts\<close>

lemma bind_err_simps [simp]:
  "bind_err (Inl e) f = Inl e" "bind_err (Inr a) f = f a"
  by (simp_all add: bind_err_def)

lemma bind_err_Inr_iff: "bind_err r f = Inr b \<longleftrightarrow> (\<exists>a. r = Inr a \<and> f a = Inr b)"
  by (cases r) simp_all


lemma scalar_sub_self: "scalar_sub x x = (if is_finite x then Val 0 else NaN)"
  by (cases x) (simp_all add: scalar_sub_def)

lemma CustomELBO_get_trace_Inr:
  assumes "CustomELBO_get_trace ev batch w = (Inr (m, g), w')"
  shows "TraceGraph_get_trace ev batch w = (Inr (m, g), w'\<lparr>trace_storage := trace_storage w\<rparr>)"
    and "trace_storage w' = ((trace_storage w)(''model'' \<mapsto> Some m))(''guide'' \<mapsto> Some m)"
  using assms
  by (auto simp: CustomELBO_get_trace_def TraceGraph_get_trace_def split: prod.splits sum.splits)

lemma CustomELBO_get_trace_Inl:
  assumes "CustomELBO_get_trace ev batch w = (Inl e, w')"
  shows "trace_storage w' = trace_storage w"
  using assms
  by (auto simp: CustomELBO_get_trace_def TraceGraph_get_trace_def split: prod.splits sum.splits)


lemma get_traces_custom_aliased:
  "get_traces (CustomELBO_get_trace ev) n batch w = (r, w') \<Longrightarrow>
     trace_storage w ''guide'' = trace_storage w ''model'' \<Longrightarrow>
     trace_storage w' ''guide'' = trace_storage w' ''model''"
proof (induction n arbitrary: w r w')
  case 0
  then show ?case by simp
next
  case (Suc n)
  obtain r1 w1 where gt: "CustomELBO_get_trace ev batch w = (r1, w1)" by fastforce
  show ?case
  proof (cases r1)
    case (Inl e)
    with Suc.prems gt CustomELBO_get_trace_Inl[of ev batch w e w1] show ?thesis by auto
  next
    case (Inr p)
    obtain m g where p: "p = (m, g)" by fastforce
    have al: "trace_storage w1 ''guide'' = trace_storage w1 ''model''"
      using CustomELBO_get_trace_Inr(2)[of ev batch w m g w1] gt Inr p by simp
    obtain r2 w2 where rest: "get_traces (CustomELBO_get_trace ev) n batch w1 = (r2, w2)"
      by fastforce
    have "w' = w2" using Suc.prems(1) gt Inr rest by (auto split: sum.splits)
    with Suc.IH[OF rest al] show ?thesis by simp
  qed
qed

lemma get_traces_custom_pos:
  "get_traces (CustomELBO_get_trace ev) (Suc n) batch w = (Inr trs, w') \<Longrightarrow>
     trace_storage w' ''guide'' = trace_storage w' ''model''"
proof -
  assume a: "get_traces (CustomELBO_get_trace ev) (Suc n) batch w = (Inr trs, w')"
  obtain r1 w1 where gt: "CustomELBO_get_trace ev batch w = (r1, w1)" by fastforce
  from a gt obtain m g where r1: "r1 = Inr (m, g)" by (cases r1) auto
  have al: "trace_storage w1 ''guide'' = trace_storage w1 ''model''"
    using CustomELBO_get_trace_Inr(2)[of ev batch w m g w1] gt r1 by simp
  obtain r2 w2 where rest: "get_traces (CustomELBO_get_trace ev) n batch w1 = (r2, w2)"
    by fastforce
  have "w' = w2" using a gt r1 rest by (auto split: sum.splits)
  with get_traces_custom_aliased[OF rest al] show ?thesis by simp
qed

lemma get_trace_metrics_storage:
  "trace_storage w1 = trace_storage w2 \<Longrightarrow> get_trace_metrics w1 = get_trace_metrics w2"
  by (simp add: get_trace_metrics_def)

lemma dict_assign_Nil [simp]: "dict_assign d [] = d"
  by (simp add: dict_assign_def)

lemma dict_assign_Cons [simp]: "dict_assign d ((k, v) # kvs) = dict_assign (dict_set k v d) kvs"
  by (simp add: dict_assign_def)

lemma get_trace_metrics_Inr:
  assumes "get_trace_metrics w = Inr ms"
  shows "\<exists>m g px page psex pz qz.
           trace_storage w ''model'' = Some (Some m) \<and> trace_storage w ''guide'' = Some (Some g) \<and>
           node_log_prob_sum m ''x'' = Inr px \<and> node_log_prob_sum m ''age'' = Inr page \<and>
           node_log_prob_sum m ''sex'' = Inr psex \<and> node_log_prob_sum m ''z'' = Inr pz \<and>
           node_log_prob_sum g ''z'' = Inr qz \<and>
           ms = [(''log p(x)'', px), (''log p(age)'', page), (''log p(sex)'', psex),
                 (''log p(ventricle_volume)'', psex), (''log p(brain_volume)'', psex),
                 (''log p(z) - log q(z)'', scalar_sub pz qz), (''p(z)'', pz), (''q(z)'', qz)]"
  using assms
  unfolding get_trace_metrics_def storage_get_def nodes_of_def
  by (auto simp: bind_err_Inr_iff split: option.splits)

lemma demo_get_trace:
  "CustomELBO_get_trace demo_env demo_obs demo_world =
     (Inr (demo_model_trace, demo_guide_trace),
      demo_world\<lparr>rng := 1,
        trace_storage := (init_trace_storage(''model'' \<mapsto> Some demo_model_trace))
                           (''guide'' \<mapsto> Some demo_model_trace)\<rparr>)"
  by (simp add: CustomELBO_get_trace_def TraceGraph_get_trace_def demo_env_def demo_world_def)

lemma demo_metrics:
  "get_trace_metrics (snd (CustomELBO_get_trace demo_env demo_obs demo_world)) =
     Inr [(''log p(x)'', Val (- 3)), (''log p(age)'', Val (- 1)),
      (''log p(sex)'', Val (- 2)), (''log p(ventricle_volume)'', Val (- 2)),
      (''log p(brain_volume)'', Val (- 2)),
      (''log p(z) - log q(z)'', Val 0), (''p(z)'', Val (- 6)),
      (''q(z)'', Val (- 6))]"
  by (simp add: demo_get_trace get_trace_metrics_def storage_get_def nodes_of_def
      node_log_prob_sum_def dict_get_def demo_model_trace_def demo_site_def scalar_sub_def
      init_trace_storage_def)

section \<open>The stored traces\<close>

text \<open>
  Claim C1.  The claim: on every trace-construction call \<open>CustomELBO._get_trace\<close> stores
  the fresh model trace under \<open>'model'\<close> and the fresh guide trace under \<open>'guide'\<close>.
  The source assigns \<open>model_trace\<close> to both keys (line 30).  On the concrete instance
  the superclass returns a model trace and a different guide trace, the wrapper returns
  the pair unchanged, and the entry stored under \<open>'guide'\<close> is the model trace.
\<close>

theorem C1_guide_entry_holds_model_trace:
  "fst (CustomELBO_get_trace demo_env demo_obs demo_world) = Inr (demo_model_trace, demo_guide_trace)
   \<and> trace_storage (snd (CustomELBO_get_trace demo_env demo_obs demo_world)) ''guide''
       = Some (Some demo_model_trace)
   \<and> demo_guide_trace \<noteq> demo_model_trace"
  by (simp add: demo_get_trace) (simp add: demo_guide_trace_def demo_model_trace_def)

text \<open>
  Claim C2.  The claim: \<open>get_trace_metrics\<close> gives each observed variable the summed
  log-probability of its own site.  The source reads the \<open>sex\<close> site for
  \<open>'log p(ventricle_volume)'\<close> and \<open>'log p(brain_volume)'\<close> (lines 229 and 230).  On
  the concrete instance the three sites have the log-probabilities \<open>-2\<close>, \<open>-4\<close> and
  \<open>-5\<close>, and both volume metrics are \<open>-2\<close>.
\<close>

theorem C2_volume_metrics_read_sex_site:
  "bind_err (get_trace_metrics (snd (CustomELBO_get_trace demo_env demo_obs demo_world)))
     (\<lambda>ms. dict_get ms ''log p(ventricle_volume)'') = Inr (Val (- 2))
   \<and> bind_err (get_trace_metrics (snd (CustomELBO_get_trace demo_env demo_obs demo_world)))
     (\<lambda>ms. dict_get ms ''log p(brain_volume)'') = Inr (Val (- 2))
   \<and> node_log_prob_sum demo_model_trace ''sex'' = Inr (Val (- 2))
   \<and> node_log_prob_sum demo_model_trace ''ventricle_volume'' = Inr (Val (- 4))
   \<and> node_log_prob_sum demo_model_trace ''brain_volume'' = Inr (Val (- 5))"
  by (simp add: demo_metrics dict_get_def node_log_prob_sum_def demo_model_trace_def demo_site_def)

lemma svi_loss_storage:
  assumes "svi_step ev ex batch w = (Inr loss, w') \<or> svi_evaluate_loss ev ex batch w = (Inr loss, w')"
  shows "\<exists>trs w1. get_traces (CustomELBO_get_trace ev) (num_svi_particles ex) batch w = (Inr trs, w1)
           \<and> trace_storage w' = trace_storage w1"
  using assms
  by (auto simp: svi_step_def svi_evaluate_loss_def SVI_step_def SVI_evaluate_loss_def
      split: prod.splits sum.splits)

text \<open>
  Claim C3.  The claim: after any loss computation through \<open>CustomELBO\<close>, the
  \<open>'guide'\<close> entry of \<open>trace_storage\<close> is the \<open>'model'\<close> entry, so
  \<open>get_trace_metrics\<close> returns \<open>'p(z)'\<close> equal to \<open>'q(z)'\<close> and
  \<open>'log p(z) - log q(z)'\<close> exactly zero.  The two entries are the same, and so are
  \<open>'p(z)'\<close> and \<open>'q(z)'\<close>; their difference is \<open>x - x\<close> for that common value
  \<open>x\<close>, which is zero when \<open>x\<close> is finite and not-a-number when \<open>x\<close> is
  not-a-number or infinite.  As proved: after a successful \<open>svi.step\<close> or
  \<open>svi.evaluate_loss\<close>, run with at least one particle or from a storage whose two
  entries agree (as at construction), the two entries agree, and every mapping
  \<open>get_trace_metrics\<close> then returns has \<open>'p(z)'\<close> and \<open>'q(z)'\<close> equal to one
  value \<open>x\<close> and \<open>'log p(z) - log q(z)'\<close> equal to zero if \<open>x\<close> is finite, to
  not-a-number otherwise.
\<close>

theorem C3_stored_guide_is_stored_model:
  assumes run: "svi_step ev ex batch w = (Inr loss, w')
                \<or> svi_evaluate_loss ev ex batch w = (Inr loss, w')"
      and start: "0 < num_svi_particles ex
                  \<or> trace_storage w ''guide'' = trace_storage w ''model''"
  shows "trace_storage w' ''guide'' = trace_storage w' ''model''
         \<and> (\<forall>ms. get_trace_metrics w' = Inr ms \<longrightarrow>
               (\<exists>x. dict_get ms ''p(z)'' = Inr x \<and> dict_get ms ''q(z)'' = Inr x
                  \<and> dict_get ms ''log p(z) - log q(z)''
                      = Inr (if is_finite x then Val 0 else NaN)))"
proof -
  from svi_loss_storage[OF run] obtain trs w1 where
    gt: "get_traces (CustomELBO_get_trace ev) (num_svi_particles ex) batch w = (Inr trs, w1)"
    and st: "trace_storage w' = trace_storage w1" by blast
  have al1: "trace_storage w1 ''guide'' = trace_storage w1 ''model''"
  proof (cases "num_svi_particles ex")
    case 0
    with start gt show ?thesis by simp
  next
    case (Suc n)
    with gt get_traces_custom_pos[of ev n batch w trs w1] show ?thesis by simp
  qed
  have al: "trace_storage w' ''guide'' = trace_storage w' ''model''"
    using al1 st by simp
  have "\<exists>x. dict_get ms ''p(z)'' = Inr x \<and> dict_get ms ''q(z)'' = Inr x
            \<and> dict_get ms ''log p(z) - log q(z)'' = Inr (if is_finite x then Val 0 else NaN)"
    if ms: "get_trace_metrics w' = Inr ms" for ms
  proof -
    from get_trace_metrics_Inr[OF ms] obtain m g px page psex pz qz where
      sm: "trace_storage w' ''model'' = Some (Some m)" and
      sg: "trace_storage w' ''guide'' = Some (Some g)" and
      pz: "node_log_prob_sum m ''z'' = Inr pz" and
      qz: "node_log_prob_sum g ''z'' = Inr qz" and
      msd: "ms = [(''log p(x)'', px), (''log p(age)'', page), (''log p(sex)'', psex),
                 (''log p(ventricle_volume)'', psex), (''log p(brain_volume)'', psex),
                 (''log p(z) - log q(z)'', scalar_sub pz qz), (''p(z)'', pz), (''q(z)'', qz)]"
      by blast
    from al sm sg have "g = m" by simp
    with pz qz have "qz = pz" by simp
    then show ?thesis
      by (simp add: msd dict_get_def scalar_sub_self)
  qed
  with al show ?thesis by blast
qed

lemma nan_get_trace:
  "CustomELBO_get_trace nan_env batch w =
     (Inr (nan_model_trace, demo_guide_trace),
      w\<lparr>rng := Suc (rng w),
        trace_storage := ((trace_storage w)(''model'' \<mapsto> Some nan_model_trace))
                           (''guide'' \<mapsto> Some nan_model_trace)\<rparr>)"
  by (simp add: CustomELBO_get_trace_def TraceGraph_get_trace_def nan_env_def demo_env_def)

lemma demo_get_trace_any:
  "CustomELBO_get_trace demo_env batch w =
     (Inr (demo_model_trace, demo_guide_trace),
      w\<lparr>rng := Suc (rng w),
        trace_storage := ((trace_storage w)(''model'' \<mapsto> Some demo_model_trace))
                           (''guide'' \<mapsto> Some demo_model_trace)\<rparr>)"
  by (simp add: CustomELBO_get_trace_def TraceGraph_get_trace_def demo_env_def)

lemma get_traces_2:
  "get_traces gt 2 batch w =
     (case gt batch w of
        (Inl e, w1) \<Rightarrow> (Inl e, w1)
      | (Inr p, w1) \<Rightarrow>
          (case gt batch w1 of
             (Inl e, w2) \<Rightarrow> (Inl e, w2)
           | (Inr q, w2) \<Rightarrow> (Inr [p, q], w2)))"
  by (simp add: numeral_2_eq_2 split: prod.splits sum.splits)

lemma nan_svi_step:
  "svi_step nan_env demo_experiment batch w =
     (Inr NaN,
      w\<lparr>params := dict_set ''sex_logits'' (demo_tensor 1) (params w),
        rng := Suc (Suc (rng w)),
        trace_storage := ((trace_storage w)(''model'' \<mapsto> Some nan_model_trace))
                           (''guide'' \<mapsto> Some nan_model_trace)\<rparr>)"
  by (simp add: svi_step_def SVI_step_def get_traces_2 nan_get_trace demo_experiment_def)
     (simp add: nan_env_def demo_env_def)

lemma demo_svi_step:
  "svi_step demo_env demo_experiment batch w =
     (Inr (Val 2),
      w\<lparr>params := dict_set ''sex_logits'' (demo_tensor 1) (params w),
        rng := Suc (Suc (rng w)),
        trace_storage := ((trace_storage w)(''model'' \<mapsto> Some demo_model_trace))
                           (''guide'' \<mapsto> Some demo_model_trace)\<rparr>)"
  by (simp add: svi_step_def SVI_step_def get_traces_2 demo_get_trace_any demo_experiment_def)
     (simp add: demo_env_def)

lemma metrics_of_storage:
  "trace_storage w = (st(''model'' \<mapsto> Some m))(''guide'' \<mapsto> Some m) \<Longrightarrow>
   get_trace_metrics w =
     bind_err (node_log_prob_sum m ''x'') (\<lambda>px.
     bind_err (node_log_prob_sum m ''age'') (\<lambda>page.
     bind_err (node_log_prob_sum m ''sex'') (\<lambda>psex.
     bind_err (node_log_prob_sum m ''z'') (\<lambda>pz.
       Inr [(''log p(x)'', px), (''log p(age)'', page), (''log p(sex)'', psex),
            (''log p(ventricle_volume)'', psex), (''log p(brain_volume)'', psex),
            (''log p(z) - log q(z)'', scalar_sub pz pz), (''p(z)'', pz), (''q(z)'', pz)]))))"
  by (simp add: get_trace_metrics_def storage_get_def nodes_of_def bind_err_def split: sum.splits)

lemma nan_metrics:
  "trace_storage w = (st(''model'' \<mapsto> Some nan_model_trace))(''guide'' \<mapsto> Some nan_model_trace) \<Longrightarrow>
   get_trace_metrics w =
     Inr [(''log p(x)'', Val (- 3)), (''log p(age)'', Val (- 1)),
      (''log p(sex)'', Val (- 2)), (''log p(ventricle_volume)'', Val (- 2)),
      (''log p(brain_volume)'', Val (- 2)), (''log p(z) - log q(z)'', NaN),
      (''p(z)'', NaN), (''q(z)'', NaN)]"
  by (simp add: metrics_of_storage[of w st nan_model_trace] node_log_prob_sum_def dict_get_def 
       nan_model_trace_def demo_model_trace_def demo_site_def scalar_sub_def)

lemma demo_metrics_any:
  "trace_storage w = (st(''model'' \<mapsto> Some demo_model_trace))(''guide'' \<mapsto> Some demo_model_trace) \<Longrightarrow>
   get_trace_metrics w =
     Inr [(''log p(x)'', Val (- 3)), (''log p(age)'', Val (- 1)),
      (''log p(sex)'', Val (- 2)), (''log p(ventricle_volume)'', Val (- 2)),
      (''log p(brain_volume)'', Val (- 2)), (''log p(z) - log q(z)'', Val 0),
      (''p(z)'', Val (- 6)), (''q(z)'', Val (- 6))]"
  by (simp add: metrics_of_storage[of w st demo_model_trace] node_log_prob_sum_def dict_get_def 
       demo_model_trace_def demo_site_def scalar_sub_def)

text \<open>
  The claim as stated fails where the model's \<open>z\<close> site has a not-a-number
  log-probability: the difference is not-a-number, not zero.
\<close>

theorem C3_nan_difference_counterexample:
  "fst (svi_step nan_env demo_experiment demo_obs demo_world) = Inr NaN
   \<and> bind_err (get_trace_metrics (snd (svi_step nan_env demo_experiment demo_obs demo_world)))
       (\<lambda>ms. dict_get ms ''log p(z) - log q(z)'') = Inr NaN
   \<and> NaN \<noteq> Val 0"
  by (simp add: nan_svi_step nan_metrics[of _ "trace_storage demo_world"] dict_get_def)

text \<open>The theorem of claim C3 at the concrete instance, two particles.\<close>

theorem C3_stored_guide_is_stored_model_witness:
  "svi_step demo_env demo_experiment demo_obs demo_world
     = (Inr (Val 2), snd (svi_step demo_env demo_experiment demo_obs demo_world))
   \<and> 0 < num_svi_particles demo_experiment
   \<and> trace_storage (snd (svi_step demo_env demo_experiment demo_obs demo_world)) ''guide''
       = trace_storage (snd (svi_step demo_env demo_experiment demo_obs demo_world)) ''model''
   \<and> bind_err (get_trace_metrics (snd (svi_step demo_env demo_experiment demo_obs demo_world)))
       (\<lambda>ms. dict_get ms ''log p(z) - log q(z)'') = Inr (Val 0)"
proof -
  let ?w' = "snd (svi_step demo_env demo_experiment demo_obs demo_world)"
  have run: "svi_step demo_env demo_experiment demo_obs demo_world = (Inr (Val 2), ?w')"
    by (simp add: demo_svi_step)
  have pos: "0 < num_svi_particles demo_experiment"
    by (simp add: demo_experiment_def)
  have ms: "get_trace_metrics ?w' =
     Inr [(''log p(x)'', Val (- 3)), (''log p(age)'', Val (- 1)),
      (''log p(sex)'', Val (- 2)), (''log p(ventricle_volume)'', Val (- 2)),
      (''log p(brain_volume)'', Val (- 2)), (''log p(z) - log q(z)'', Val 0),
      (''p(z)'', Val (- 6)), (''q(z)'', Val (- 6))]"
    by (simp add: demo_svi_step demo_metrics_any[of _ "trace_storage demo_world"])
  from C3_stored_guide_is_stored_model[of demo_env demo_experiment demo_obs demo_world "Val 2" ?w']
    run pos
  have main: "trace_storage ?w' ''guide'' = trace_storage ?w' ''model''
         \<and> (\<forall>ms. get_trace_metrics ?w' = Inr ms \<longrightarrow>
               (\<exists>x. dict_get ms ''p(z)'' = Inr x \<and> dict_get ms ''q(z)'' = Inr x
                  \<and> dict_get ms ''log p(z) - log q(z)''
                      = Inr (if is_finite x then Val 0 else NaN)))"
    by blast
  then obtain x where x: "dict_get (projr (get_trace_metrics ?w')) ''p(z)'' = Inr x"
     "dict_get (projr (get_trace_metrics ?w')) ''log p(z) - log q(z)'' = Inr (if is_finite x then Val 0 else NaN)"
    using ms by force
  from x(1) have "x = Val (- 6)" by (simp add: ms dict_get_def)
  with x(2) have "bind_err (get_trace_metrics ?w') (\<lambda>ms. dict_get ms ''log p(z) - log q(z)'') = Inr (Val 0)"
    by (simp add: ms)
  with run pos main show ?thesis by blast
qed

section \<open>The observation check\<close>

lemma set_required_data:
  "set required_data = {''x'', ''sex'', ''age'', ''ventricle_volume'', ''brain_volume''}"
  by (auto simp: required_data_def)

lemma call_guide_calls:
  "call_guide ev obs w = (r, w1) \<Longrightarrow> calls w1 = calls w @ [GuideCall obs]"
  by (auto simp: call_guide_def split: prod.splits)

lemma guide_z_dist_calls:
  "guide_z_dist ev obs w = (r, w1) \<Longrightarrow> calls w1 = calls w @ [GuideCall obs]"
  by (auto simp: guide_z_dist_def split: prod.splits sum.splits dest: call_guide_calls)

lemma call_pyro_sample_calls:
  "call_pyro_sample ev d w = (r, w1) \<Longrightarrow> calls w1 = calls w @ [PyroSampleCall d r]"
  by (auto simp: call_pyro_sample_def split: prod.splits)

lemma call_infer_exogeneous_calls:
  "call_infer_exogeneous ev z obs w = (r, w1) \<Longrightarrow> calls w1 = calls w @ [InferExogeneousCall z obs r]"
  by (auto simp: call_infer_exogeneous_def split: prod.splits)

lemma call_sample_calls:
  "call_sample ev data n w = (r, w1) \<Longrightarrow> calls w1 = calls w @ [SampleCall data n r]"
  by (auto simp: call_sample_def split: prod.splits)

lemma call_sample_scm_calls:
  "call_sample_scm ev exo c n w = (r, w1) \<Longrightarrow> calls w1 = calls w @ [SampleScmCall exo c n r]"
  by (auto simp: call_sample_scm_def split: prod.splits)

lemma counterfactual_loop_extends:
  "counterfactual_loop ev zd obs condition k acc w = (r, w') \<Longrightarrow> \<exists>new. calls w' = calls w @ new"
proof (induction k arbitrary: acc w)
  case 0
  then show ?case by simp
next
  case (Suc k)
  obtain r1 w1 where s1: "call_pyro_sample ev zd w = (r1, w1)" by fastforce
  note c1 = call_pyro_sample_calls[OF s1]
  show ?case
  proof (cases r1)
    case (Inl e)
    with Suc.prems s1 c1 show ?thesis by auto
  next
    case z: (Inr z)
    obtain r2 w2 where s2: "call_infer_exogeneous ev z obs w1 = (r2, w2)" by fastforce
    note c2 = call_infer_exogeneous_calls[OF s2]
    show ?thesis
    proof (cases r2)
      case (Inl e)
      with Suc.prems s1 z s2 c1 c2 show ?thesis by auto
    next
      case exo: (Inr exo0)
      show ?thesis
      proof (cases condition)
        case None
        with Suc.prems s1 z s2 exo c1 c2 show ?thesis by auto
      next
        case (Some cond)
        let ?pre = "bind_err
                         (if ''sex'' \<notin> set (map fst cond)
                          then bind_err (dict_get obs ''sex'')
                                 (\<lambda>s. Inr (dict_set ''sex'' s (dict_set ''z'' z exo0)))
                          else Inr (dict_set ''z'' z exo0))
                         (\<lambda>exogeneous.
                            bind_err (bind_err (dict_get obs ''x'') shape0)
                              (\<lambda>n. Inr (exogeneous, n)))"
        show ?thesis
        proof (cases ?pre)
          case (Inl e)
          with Suc.prems s1 z s2 exo Some c1 c2 show ?thesis by auto
        next
          case (Inr p)
          obtain exogeneous n where p: "p = (exogeneous, n)" by fastforce
          obtain r3 w3 where s3: "call_sample_scm ev exogeneous cond n w2 = (r3, w3)" by fastforce
          note c3 = call_sample_scm_calls[OF s3]
          show ?thesis
          proof (cases r3)
            case (Inl e)
            with Suc.prems s1 z s2 exo Some Inr p s3 c1 c2 c3 show ?thesis by auto
          next
            case counter: (Inr counter)
            have "counterfactual_loop ev zd obs condition k (acc @ [counter]) w3 = (r, w')"
              using Suc.prems s1 z s2 exo Some Inr p s3 counter by simp
            from Suc.IH[OF this] c1 c2 c3 show ?thesis by auto
          qed
        qed
      qed
    qed
  qed
qed

text \<open>
  Claim C4.  For every keyword observation whose key set is not exactly
  \<open>{x, sex, age, ventricle_volume, brain_volume}\<close>, \<open>infer\<close> and
  \<open>counterfactual\<close> raise the assertion error that names the keys received, and
  leave the world as it was: no guide has run, no draw was made, nothing was inferred.
  For every observation with exactly those keys the assertion passes: the next thing
  either function does is to run the guide on the observation.
\<close>

theorem C4_observation_keys_asserted:
  "(set (map fst obs) \<noteq> {''x'', ''sex'', ''age'', ''ventricle_volume'', ''brain_volume''} \<longrightarrow>
      infer ev obs w = (Inl (AssertionError (map fst obs)), w)
      \<and> counterfactual ev obs condition num_particles w = (Inl (AssertionError (map fst obs)), w))
   \<and> (set (map fst obs) = {''x'', ''sex'', ''age'', ''ventricle_volume'', ''brain_volume''} \<longrightarrow>
      (\<exists>rest. calls (snd (infer ev obs w)) = calls w @ GuideCall obs # rest)
      \<and> (\<exists>rest. calls (snd (counterfactual ev obs condition num_particles w))
                  = calls w @ GuideCall obs # rest))"
proof (intro conjI impI)
  assume bad: "set (map fst obs) \<noteq> {''x'', ''sex'', ''age'', ''ventricle_volume'', ''brain_volume''}"
  then show "infer ev obs w = (Inl (AssertionError (map fst obs)), w)"
    by (simp add: infer_def set_required_data)
  from bad show "counterfactual ev obs condition num_particles w = (Inl (AssertionError (map fst obs)), w)"
    by (simp add: counterfactual_def set_required_data)
next
  assume ok: "set (map fst obs) = {''x'', ''sex'', ''age'', ''ventricle_volume'', ''brain_volume''}"
  obtain r1 w1 where g: "call_guide ev obs w = (r1, w1)" by fastforce
  note cg = call_guide_calls[OF g]
  show "\<exists>rest. calls (snd (infer ev obs w)) = calls w @ GuideCall obs # rest"
  proof (cases r1)
    case (Inl e)
    with ok g cg show ?thesis by (simp add: infer_def set_required_data)
  next
    case (Inr p)
    obtain z t where p: "p = (z, t)" by fastforce
    obtain r2 w2 where s2: "call_infer_exogeneous ev z obs w1 = (r2, w2)" by fastforce
    from call_infer_exogeneous_calls[OF s2] cg
    have "calls w2 = calls w @ GuideCall obs # [InferExogeneousCall z obs r2]" by simp
    moreover have "snd (infer ev obs w) = w2"
      using ok g Inr p s2 by (simp add: infer_def set_required_data split: sum.splits)
    ultimately show ?thesis by simp
  qed
  obtain r3 w3 where gz: "guide_z_dist ev obs w = (r3, w3)" by fastforce
  note cz = guide_z_dist_calls[OF gz]
  show "\<exists>rest. calls (snd (counterfactual ev obs condition num_particles w))
                  = calls w @ GuideCall obs # rest"
  proof (cases r3)
    case (Inl e)
    with ok gz cz show ?thesis by (simp add: counterfactual_def set_required_data)
  next
    case (Inr zd)
    obtain r4 w4 where l: "counterfactual_loop ev zd obs condition (nat num_particles) [] w3 = (r4, w4)"
      by fastforce
    from counterfactual_loop_extends[OF l] cz obtain new where
      "calls w4 = calls w @ GuideCall obs # new" by auto
    moreover have "snd (counterfactual ev obs condition num_particles w) = w4"
      using ok gz Inr l by (simp add: counterfactual_def set_required_data split: sum.splits)
    ultimately show ?thesis by simp
  qed
qed


lemma demo_obs_keys:
  "set (map fst demo_obs) = {''x'', ''sex'', ''age'', ''ventricle_volume'', ''brain_volume''}"
  by (simp add: demo_obs_def)

lemma demo_obs_tl_keys:
  "set (map fst (tl demo_obs)) \<noteq> {''x'', ''sex'', ''age'', ''ventricle_volume'', ''brain_volume''}"
  by (auto simp: demo_obs_def)

text \<open>
  The theorem of claim C4 at the concrete observation and at the same observation
  without its \<open>x\<close>.
\<close>

theorem C4_observation_keys_asserted_witness:
  "set (map fst (tl demo_obs)) \<noteq> {''x'', ''sex'', ''age'', ''ventricle_volume'', ''brain_volume''}
   \<and> infer demo_env (tl demo_obs) demo_world
       = (Inl (AssertionError [''sex'', ''age'', ''ventricle_volume'', ''brain_volume'']), demo_world)
   \<and> counterfactual demo_env (tl demo_obs) (Some []) 1 demo_world
       = (Inl (AssertionError [''sex'', ''age'', ''ventricle_volume'', ''brain_volume'']), demo_world)
   \<and> set (map fst demo_obs) = {''x'', ''sex'', ''age'', ''ventricle_volume'', ''brain_volume''}
   \<and> (\<exists>rest. calls (snd (infer demo_env demo_obs demo_world)) = GuideCall demo_obs # rest)
   \<and> (\<exists>rest. calls (snd (counterfactual demo_env demo_obs (Some []) 1 demo_world))
         = GuideCall demo_obs # rest)"
proof -
  have keys: "map fst (tl demo_obs) = [''sex'', ''age'', ''ventricle_volume'', ''brain_volume'']"
    by (simp add: demo_obs_def)
  have empty: "calls demo_world = []" by (simp add: demo_world_def)
  from C4_observation_keys_asserted[of "tl demo_obs" demo_env demo_world "Some []" 1]
       C4_observation_keys_asserted[of demo_obs demo_env demo_world "Some []" 1]
       demo_obs_keys demo_obs_tl_keys
  show ?thesis by (simp add: keys empty)
qed

section \<open>The particles of counterfactual\<close>

lemma scm_calls_checked_particle:
  "scm_calls_checked obs cond
     (PyroSampleCall d rz # InferExogeneousCall z obs' (Inr inferred) # SampleScmCall exo c n r # rest)
   = (exo = spec_exogeneous obs cond z inferred \<and> c = cond \<and> scm_calls_checked obs cond rest)"
  by simp




lemma map_of_dict_set: "map_of (dict_set k v d) = (map_of d)(k \<mapsto> v)"
  by (induction d) (auto simp: fun_eq_iff)

lemma spec_exogeneous_sex:
  "''sex'' \<notin> set (map fst cond) \<Longrightarrow> map_of obs ''sex'' = Some s \<Longrightarrow>
     map_of (spec_exogeneous obs cond z inferred) ''sex'' = Some s"
  by (simp add: spec_exogeneous_def map_of_dict_set)




section \<open>The default intervention\<close>

text \<open>
  Claim C6.  The claim: for every valid observation, \<open>counterfactual\<close> called without
  its \<open>condition\<close> argument, which is then \<open>None\<close>, raises the attribute error of
  \<open>None.keys()\<close>.  That is so when the particle loop runs: with a count of at least
  one (the default is one), once the guide, the draw of \<open>z\<close> and
  \<open>infer_exogeneous\<close> of the first particle have returned, the call raises that
  error, in the world that \<open>infer_exogeneous\<close> left, so no \<open>sample_scm\<close> has been
  called and the error is not the assertion's.  With a count below one the loop body
  does not run, \<open>condition\<close> is never read and the call returns the empty mapping.
\<close>

theorem C6_default_condition_attribute_error:
  assumes keys: "set (map fst obs) = {''x'', ''sex'', ''age'', ''ventricle_volume'', ''brain_volume''}"
      and g: "guide_z_dist ev obs w = (Inr z_dist, w1)"
  shows "(0 < num_particles \<longrightarrow>
            (\<forall>z w2 inferred w3.
               call_pyro_sample ev z_dist w1 = (Inr z, w2) \<longrightarrow>
               call_infer_exogeneous ev z obs w2 = (Inr inferred, w3) \<longrightarrow>
               counterfactual ev obs None num_particles w = (Inl (AttributeError ''keys''), w3)))
         \<and> (num_particles \<le> 0 \<longrightarrow> counterfactual ev obs None num_particles w = (Inr [], w1))"
proof (intro conjI impI allI)
  fix z w2 inferred w3
  assume pos: "0 < num_particles"
     and s: "call_pyro_sample ev z_dist w1 = (Inr z, w2)"
     and i: "call_infer_exogeneous ev z obs w2 = (Inr inferred, w3)"
  from pos obtain k where k: "nat num_particles = Suc k"
    by (cases "nat num_particles") auto
  have "counterfactual_loop ev z_dist obs None (nat num_particles) [] w1
          = (Inl (AttributeError ''keys''), w3)"
    using s i by (simp add: k)
  with keys g show "counterfactual ev obs None num_particles w = (Inl (AttributeError ''keys''), w3)"
    by (simp add: counterfactual_def set_required_data)
next
  assume "num_particles \<le> 0"
  then have "nat num_particles = 0" by simp
  with keys g show "counterfactual ev obs None num_particles w = (Inr [], w1)"
    by (simp add: counterfactual_def set_required_data zip_star_def)
qed

lemma demo_guide_z_dist:
  "guide_z_dist demo_env demo_obs demo_world =
     (Inr (Dist ''Normal'' []), demo_world\<lparr>rng := 1, calls := [GuideCall demo_obs]\<rparr>)"
  by (simp add: guide_z_dist_def call_guide_def dict_get_def
        demo_env_def demo_world_def demo_guide_trace_def demo_site_def)

text \<open>
  The claim as stated fails at a particle count of zero: the valid observation, no
  \<open>condition\<close>, and the call returns the empty mapping.
\<close>

theorem C6_zero_particles_counterexample:
  "set (map fst demo_obs) = {''x'', ''sex'', ''age'', ''ventricle_volume'', ''brain_volume''}
   \<and> fst (counterfactual demo_env demo_obs None 0 demo_world) = Inr []"
  by (simp add: demo_obs_keys [simplified] counterfactual_def set_required_data
        demo_guide_z_dist zip_star_def)

text \<open>The theorem of claim C6 at the concrete observation, with one particle and with none.\<close>

theorem C6_default_condition_attribute_error_witness:
  "set (map fst demo_obs) = {''x'', ''sex'', ''age'', ''ventricle_volume'', ''brain_volume''}
   \<and> fst (guide_z_dist demo_env demo_obs demo_world) = Inr (Dist ''Normal'' [])
   \<and> (0::int) < 1
   \<and> fst (counterfactual demo_env demo_obs None 1 demo_world) = Inl (AttributeError ''keys'')
   \<and> calls (snd (counterfactual demo_env demo_obs None 1 demo_world))
       = [GuideCall demo_obs,
          PyroSampleCall (Dist ''Normal'' []) (Inr (demo_tensor 1)),
          InferExogeneousCall (demo_tensor 1) demo_obs (Inr [(''age'', demo_tensor 5)])]
   \<and> (0::int) \<le> 0
   \<and> fst (counterfactual demo_env demo_obs None 0 demo_world) = Inr []"
proof -
  have none: "fst (counterfactual demo_env demo_obs None 0 demo_world) = Inr []"
    using C6_default_condition_attribute_error[OF demo_obs_keys demo_guide_z_dist, of 0]
    by simp
  let ?w1 = "demo_world\<lparr>rng := 1, calls := [GuideCall demo_obs]\<rparr>"
  let ?w2 = "demo_world\<lparr>rng := 2, calls := [GuideCall demo_obs,
               PyroSampleCall (Dist ''Normal'' []) (Inr (demo_tensor 1))]\<rparr>"
  let ?w3 = "demo_world\<lparr>rng := 2, calls := [GuideCall demo_obs,
               PyroSampleCall (Dist ''Normal'' []) (Inr (demo_tensor 1)),
               InferExogeneousCall (demo_tensor 1) demo_obs (Inr [(''age'', demo_tensor 5)])]\<rparr>"
  have s: "call_pyro_sample demo_env (Dist ''Normal'' []) ?w1 = (Inr (demo_tensor 1), ?w2)"
    by (simp add: call_pyro_sample_def demo_env_def demo_world_def)
  have i: "call_infer_exogeneous demo_env (demo_tensor 1) demo_obs ?w2
             = (Inr [(''age'', demo_tensor 5)], ?w3)"
    by (simp add: call_infer_exogeneous_def demo_env_def demo_world_def)
  from C6_default_condition_attribute_error[OF demo_obs_keys demo_guide_z_dist, of 1] s i
  have "counterfactual demo_env demo_obs None 1 demo_world = (Inl (AttributeError ''keys''), ?w3)"
    by simp
  then show ?thesis
    by (simp add: demo_obs_keys [simplified] demo_guide_z_dist none)
qed

section \<open>The training step\<close>

lemma training_log_of_metrics:
  assumes "get_trace_metrics w = Inr ms"
  shows "dict_set ''train/loss'' (PyFloat loss)
           (dict_assign [] (map (\<lambda>(k, v). (''train/'' @ k, PyFloat v)) ms))
         = map (\<lambda>(k, v). (''train/'' @ k, PyFloat v)) ms @ [(''train/loss'', PyFloat loss)]"
proof -
  from get_trace_metrics_Inr[OF assms] obtain px page psex pz qz where
    "ms = [(''log p(x)'', px), (''log p(age)'', page), (''log p(sex)'', psex),
           (''log p(ventricle_volume)'', psex), (''log p(brain_volume)'', psex),
           (''log p(z) - log q(z)'', scalar_sub pz qz), (''p(z)'', pz), (''q(z)'', qz)]"
    by blast
  then show ?thesis by simp
qed

text \<open>
  Claim C7.  In \<open>training_step\<close>, once the batch is prepared, the optional trace
  printing has passed, the optimization step has returned a loss and the metrics have
  been read: if the loss is not-a-number, the metrics are logged to the tracker under
  the tag \<open>nan\<close> with the current epoch, and the value error carrying the metrics is
  raised; otherwise the step returns the mapping with \<open>'loss'\<close>, the loss as a
  one-entry tensor, and \<open>'log'\<close>, the metrics under their names prefixed by
  \<open>train/\<close> followed by \<open>train/loss\<close>.  And whatever the collaborators do, a mapping
  that \<open>training_step\<close> returns never holds a not-a-number loss.
\<close>

theorem C7_nan_loss_is_fatal:
  "(prep_batch ev batch0 w = (Inr batch, w1)
      \<and> (if validate ex then print_trace_updates ev batch w1 else (Inr (), w1)) = (Inr u, w2)
      \<and> svi_step ev ex batch w2 = (Inr loss, w3)
      \<and> get_trace_metrics w3 = Inr ms \<longrightarrow>
        (isnan loss \<longrightarrow>
           training_step ev ex batch0 w =
             (Inl (NanLossError ms),
              w3\<lparr>logger := logger w3 @ [(''nan'', current_epoch ex, ms)]\<rparr>))
        \<and> (\<not> isnan loss \<longrightarrow>
           training_step ev ex batch0 w =
             (Inr [(''loss'', PyTensor \<lparr>shape = [1], entries = [loss]\<rparr>),
                   (''log'', PyDict (map (\<lambda>(k, v). (''train/'' @ k, PyFloat v)) ms
                                      @ [(''train/loss'', PyFloat loss)]))],
              w3)))
   \<and> (\<forall>result w'. training_step ev ex batch0 w = (Inr result, w') \<longrightarrow>
          (\<exists>l. map_of result ''loss'' = Some (PyTensor \<lparr>shape = [1], entries = [l]\<rparr>)
               \<and> \<not> isnan l))"
proof (intro conjI impI allI)
  assume a: "prep_batch ev batch0 w = (Inr batch, w1)
      \<and> (if validate ex then print_trace_updates ev batch w1 else (Inr (), w1)) = (Inr u, w2)
      \<and> svi_step ev ex batch w2 = (Inr loss, w3)
      \<and> get_trace_metrics w3 = Inr ms"
  {
    assume "isnan loss"
    with a show "training_step ev ex batch0 w =
             (Inl (NanLossError ms),
              w3\<lparr>logger := logger w3 @ [(''nan'', current_epoch ex, ms)]\<rparr>)"
      by (simp add: training_step_def)
  }
  {
    assume "\<not> isnan loss"
    with a training_log_of_metrics[of w3 ms loss]
    show "training_step ev ex batch0 w =
             (Inr [(''loss'', PyTensor \<lparr>shape = [1], entries = [loss]\<rparr>),
                   (''log'', PyDict (map (\<lambda>(k, v). (''train/'' @ k, PyFloat v)) ms
                                      @ [(''train/loss'', PyFloat loss)]))],
              w3)"
      by (simp add: training_step_def)
  }
next
  fix result w'
  assume "training_step ev ex batch0 w = (Inr result, w')"
  then show "\<exists>l. map_of result ''loss'' = Some (PyTensor \<lparr>shape = [1], entries = [l]\<rparr>)
               \<and> \<not> isnan l"
    unfolding training_step_def
    by (auto split: prod.splits sum.splits if_splits)
qed

lemma demo_prep_batch:
  "prep_batch ev demo_batch demo_world =
     (case rand_like ev \<lparr>shape = [1], entries = [Val 51]\<rparr> 0 of
        (noise, g) \<Rightarrow>
          (Inr [(''x'', tensor_add \<lparr>shape = [1], entries = [Val 51]\<rparr> noise),
                (''age'', \<lparr>shape = [1, 1], entries = [Val 60]\<rparr>),
                (''sex'', \<lparr>shape = [1, 1], entries = [Val 1]\<rparr>),
                (''ventricle_volume'', \<lparr>shape = [1, 1], entries = [Val 20]\<rparr>),
                (''brain_volume'', \<lparr>shape = [1, 1], entries = [Val 30]\<rparr>)],
           demo_world\<lparr>rng := g\<rparr>))"
  by (simp add: prep_batch_def dict_get_def unsqueeze1_def tensor_scale_def
        demo_batch_def demo_tensor_def demo_world_def)

lemma demo_prep_batch_demo:
  "prep_batch demo_env demo_batch demo_world = (Inr demo_prepared, demo_world\<lparr>rng := 1\<rparr>)"
  "prep_batch nan_env demo_batch demo_world = (Inr demo_prepared, demo_world\<lparr>rng := 1\<rparr>)"
  by (simp_all add: demo_prep_batch demo_prepared_def tensor_add_def demo_env_def nan_env_def)

lemma demo_print_trace_updates:
  "print_trace_updates demo_env batch w = (Inr (), w\<lparr>rng := Suc (rng w)\<rparr>)"
  "print_trace_updates nan_env batch w = (Inr (), w\<lparr>rng := Suc (rng w)\<rparr>)"
  by (simp_all add: print_trace_updates_def demo_env_def nan_env_def demo_model_trace_def
        demo_guide_trace_def demo_site_def)


text \<open>
  The theorem of claim C7 at the concrete batch, with trace printing on: once with a
  loss that is not-a-number, once with the loss \<open>2\<close>.
\<close>

theorem C7_nan_loss_is_fatal_witness:
  "fst (svi_step nan_env demo_experiment demo_prepared (demo_world\<lparr>rng := 2\<rparr>)) = Inr NaN
   \<and> isnan NaN
   \<and> fst (training_step nan_env demo_experiment demo_batch demo_world)
       = Inl (NanLossError nan_metrics_list)
   \<and> logger (snd (training_step nan_env demo_experiment demo_batch demo_world))
       = [(''nan'', 3, nan_metrics_list)]
   \<and> fst (svi_step demo_env demo_experiment demo_prepared (demo_world\<lparr>rng := 2\<rparr>)) = Inr (Val 2)
   \<and> \<not> isnan (Val 2)
   \<and> fst (training_step demo_env demo_experiment demo_batch demo_world)
       = Inr [(''loss'', PyTensor \<lparr>shape = [1], entries = [Val 2]\<rparr>),
              (''log'', PyDict (map (\<lambda>(k, v). (''train/'' @ k, PyFloat v)) demo_metrics_list
                                 @ [(''train/loss'', PyFloat (Val 2))]))]"
proof -
  let ?w1 = "demo_world\<lparr>rng := 1\<rparr>"
  let ?w2 = "demo_world\<lparr>rng := 2\<rparr>"
  have v: "validate demo_experiment" and ep: "current_epoch demo_experiment = 3"
    by (simp_all add: demo_experiment_def)
  have pr_nan: "(if validate demo_experiment then print_trace_updates nan_env demo_prepared ?w1
                 else (Inr (), ?w1)) = (Inr (), ?w2)"
    by (simp add: v demo_print_trace_updates demo_world_def)
  have pr_demo: "(if validate demo_experiment then print_trace_updates demo_env demo_prepared ?w1
                 else (Inr (), ?w1)) = (Inr (), ?w2)"
    by (simp add: v demo_print_trace_updates demo_world_def)
  let ?w3n = "snd (svi_step nan_env demo_experiment demo_prepared ?w2)"
  let ?w3d = "snd (svi_step demo_env demo_experiment demo_prepared ?w2)"
  have st_nan: "svi_step nan_env demo_experiment demo_prepared ?w2 = (Inr NaN, ?w3n)"
    by (simp add: nan_svi_step)
  have st_demo: "svi_step demo_env demo_experiment demo_prepared ?w2 = (Inr (Val 2), ?w3d)"
    by (simp add: demo_svi_step)
  have m_nan: "get_trace_metrics ?w3n = Inr nan_metrics_list"
    by (simp add: nan_svi_step nan_metrics[of _ "trace_storage ?w2"] nan_metrics_list_def)
  have m_demo: "get_trace_metrics ?w3d = Inr demo_metrics_list"
    by (simp add: demo_svi_step demo_metrics_any[of _ "trace_storage ?w2"] demo_metrics_list_def)
  have lg: "logger ?w3n = []"
    by (simp add: nan_svi_step demo_world_def)
  from C7_nan_loss_is_fatal[of nan_env demo_batch demo_world demo_prepared ?w1 demo_experiment
         "()" ?w2 NaN ?w3n nan_metrics_list]
       demo_prep_batch_demo(2) pr_nan st_nan m_nan
  have t_nan: "training_step nan_env demo_experiment demo_batch demo_world =
             (Inl (NanLossError nan_metrics_list),
              ?w3n\<lparr>logger := logger ?w3n @ [(''nan'', current_epoch demo_experiment, nan_metrics_list)]\<rparr>)"
    by simp
  from C7_nan_loss_is_fatal[of demo_env demo_batch demo_world demo_prepared ?w1 demo_experiment
         "()" ?w2 "Val 2" ?w3d demo_metrics_list]
       demo_prep_batch_demo(1) pr_demo st_demo m_demo
  have t_demo: "training_step demo_env demo_experiment demo_batch demo_world =
             (Inr [(''loss'', PyTensor \<lparr>shape = [1], entries = [Val 2]\<rparr>),
                   (''log'', PyDict (map (\<lambda>(k, v). (''train/'' @ k, PyFloat v)) demo_metrics_list
                                      @ [(''train/loss'', PyFloat (Val 2))]))],
              ?w3d)"
    by simp
  show ?thesis
    by (simp add: t_nan t_demo lg ep) (simp add: nan_svi_step demo_svi_step)
qed

section \<open>Reconstruction\<close>

lemma scalar_scale_one [simp]: "scalar_scale 1 s = s"
  by (cases s) simp_all

lemma stack_mean_single: "stack_mean [t] = Inr t"
  by (simp add: stack_mean_def scalar_div_count_def)

lemma foldl_min_le: "foldl min (a::nat) ls \<le> a"
proof (induction ls arbitrary: a)
  case Nil
  then show ?case by simp
next
  case (Cons l ls)
  have "foldl min (min a l) ls \<le> min a l" by (rule Cons.IH)
  then show ?case by simp
qed

lemma length_foldl_map2:
  "length (foldl (map2 f) xs yss) = foldl min (length xs) (map length yss)"
  by (induction yss arbitrary: xs) simp_all

lemma nth_foldl_map2:
  "j < length (foldl (map2 f) xs yss) \<Longrightarrow>
     foldl (map2 f) xs yss ! j = foldl f (xs ! j) (map (\<lambda>ys. ys ! j) yss)"
proof (induction yss arbitrary: xs)
  case Nil
  then show ?case by simp
next
  case (Cons ys yss)
  have "length (foldl (map2 f) (map2 f xs ys) yss) \<le> length (map2 f xs ys)"
    unfolding length_foldl_map2 by (rule foldl_min_le)
  with Cons.prems have j: "j < length xs" "j < length ys" by simp_all
  from Cons.prems have "j < length (foldl (map2 f) (map2 f xs ys) yss)" by simp
  from Cons.IH[OF this] j show ?case by simp
qed

text \<open>What \<open>torch.stack(ts).mean(0)\<close> returns, entry by entry.\<close>

lemma stack_mean_entries:
  assumes "stack_mean ts = Inr r"
  shows "ts \<noteq> []"
    and "list_all (\<lambda>u. shape u = shape r) ts"
    and "length (entries r) = foldl min (length (entries (hd ts))) (map (\<lambda>u. length (entries u)) (tl ts))"
    and "j < length (entries r) \<Longrightarrow> entries r ! j = spec_mean_entry ts j"
proof -
  from assms obtain t rest where ts: "ts = t # rest"
    by (cases ts) (simp_all add: stack_mean_def)
  from assms ts have sh: "list_all (\<lambda>u. shape u = shape t) rest"
    by (simp add: stack_mean_def split: if_splits)
  from assms ts sh have r: "r = \<lparr>shape = shape t,
                 entries = map (\<lambda>s. scalar_div_count s (length ts))
                             (foldl (map2 scalar_add) (entries t) (map entries rest))\<rparr>"
    by (simp add: stack_mean_def)
  show "ts \<noteq> []" using ts by simp
  show "list_all (\<lambda>u. shape u = shape r) ts" using ts sh r by simp
  show "length (entries r) = foldl min (length (entries (hd ts))) (map (\<lambda>u. length (entries u)) (tl ts))"
    using ts r by (simp add: length_foldl_map2 comp_def)
  show "entries r ! j = spec_mean_entry ts j" if "j < length (entries r)"
  proof -
    from that r have j: "j < length (foldl (map2 scalar_add) (entries t) (map entries rest))"
      by simp
    from nth_foldl_map2[OF j] j r ts show ?thesis
      by (simp add: spec_mean_entry_def comp_def)
  qed
qed

lemma particle_calls_Cons:
  "particle_calls zd data n ((z, outs) # ps) =
     PyroSampleCall zd (Inr z) # SampleCall (data @ [(''z'', z)]) n (Inr outs)
       # particle_calls zd data n ps"
  by (simp add: particle_calls_def)

lemma particle_calls_Nil [simp]: "particle_calls zd data n [] = []"
  by (simp add: particle_calls_def)

lemma call_pyro_sample_env:
  "call_pyro_sample ev d w = (r, w1) \<Longrightarrow>
     pyro_sample ev d (rng w) = (r, rng w1) \<and> params w1 = params w"
  by (auto simp: call_pyro_sample_def split: prod.splits)

lemma call_sample_env:
  "call_sample ev data n w = (r, w1) \<Longrightarrow>
     sample_conditioned ev (params w) data n (rng w) = (r, rng w1) \<and> params w1 = params w"
  by (auto simp: call_sample_def split: prod.splits)

lemma guide_z_dist_Inr:
  assumes "guide_z_dist ev obs w = (Inr zd, w1)"
  shows "\<exists>zv gt s. guide ev (params w) obs (rng w) = (Inr (zv, gt), rng w1)
           \<and> map_of gt ''z'' = Some s \<and> zd = site_fn s \<and> params w1 = params w
           \<and> calls w1 = calls w @ [GuideCall obs]"
  using assms
  by (auto simp: guide_z_dist_def call_guide_def dict_get_def bind_err_Inr_iff
      split: prod.splits sum.splits option.splits)

lemma reconstruct_loop_Inr:
  "reconstruct_loop ev zd x data k recons w = (Inr recons', w') \<Longrightarrow> shape0 x = Inr n \<Longrightarrow>
     \<exists>ps. spec_particles ev (params w) zd data n k (rng w) = Some (ps, rng w')
        \<and> length ps = k
        \<and> calls w' = calls w @ particle_calls zd data n ps
        \<and> list_all (\<lambda>(z, outs). outs \<noteq> []) ps
        \<and> recons' = recons @ map (\<lambda>(z, outs). hd outs) ps"
proof (induction k arbitrary: recons w)
  case 0
  then show ?case by simp
next
  case (Suc k)
  obtain r1 w1 where s1: "call_pyro_sample ev zd w = (r1, w1)" by fastforce
  from Suc.prems(1) s1 obtain z where z: "r1 = Inr z" by (cases r1) auto
  note c1 = call_pyro_sample_calls[OF s1]
  from call_pyro_sample_env[OF s1] z
  have e1: "pyro_sample ev zd (rng w) = (Inr z, rng w1)" and p1: "params w1 = params w"
    by simp_all
  obtain r2 w2 where s2: "call_sample ev (data @ [(''z'', z)]) n w1 = (r2, w2)" by fastforce
  note c2 = call_sample_calls[OF s2]
  from Suc.prems s1 z s2 obtain outs where outs: "r2 = Inr outs" by (cases r2) auto
  from call_sample_env[OF s2] outs p1
  have e2: "sample_conditioned ev (params w) (data @ [(''z'', z)]) n (rng w1) = (Inr outs, rng w2)"
    and p2: "params w2 = params w"
    by simp_all
  from Suc.prems s1 z s2 outs obtain recon rest where ne: "outs = recon # rest"
    by (cases outs) auto
  have "reconstruct_loop ev zd x data k (recons @ [recon]) w2 = (Inr recons', w')"
    using Suc.prems s1 z s2 outs ne by simp
  from Suc.IH[OF this Suc.prems(2)] p2 obtain ps where
    ps: "spec_particles ev (params w) zd data n k (rng w2) = Some (ps, rng w')"
        "length ps = k" "calls w' = calls w2 @ particle_calls zd data n ps"
        "list_all (\<lambda>(z, outs). outs \<noteq> []) ps"
        "recons' = (recons @ [recon]) @ map (\<lambda>(z, outs). hd outs) ps" by auto
  let ?ps = "(z, outs) # ps"
  have "spec_particles ev (params w) zd data n (Suc k) (rng w) = Some (?ps, rng w')"
    using e1 e2 ps(1) by simp
  moreover have "length ?ps = Suc k" using ps(2) by simp
  moreover have "calls w' = calls w @ particle_calls zd data n ?ps"
    using ps(3) c1 c2 z outs by (simp add: particle_calls_Cons)
  moreover have "list_all (\<lambda>(z, outs). outs \<noteq> []) ?ps" using ps(4) ne by simp
  moreover have "recons' = recons @ map (\<lambda>(z, outs). hd outs) ?ps" using ps(5) ne by simp
  ultimately show ?case by blast
qed

lemma reconstruct_loop_shape0:
  "reconstruct_loop ev zd x data (Suc k) recons w = (Inr recons', w') \<Longrightarrow> \<exists>n. shape0 x = Inr n"
  by (cases "shape0 x") (auto split: prod.splits sum.splits)

text \<open>
  Claim C8.  For an observation and a particle count of at least one, when
  \<open>reconstruct\<close> returns an image: the guide has been run once, on the observation,
  and the distribution is the \<open>fn\<close> of the \<open>z\<close> site of the trace the guide
  produced; starting from the generator state the guide left, for each of the
  particles in turn one \<open>z\<close> has been drawn by \<open>pyro.sample\<close> from that same
  distribution and decoded by the generative \<open>sample\<close> conditioned on the observed
  \<open>sex\<close>, \<open>age\<close>, \<open>ventricle_volume\<close> and \<open>brain_volume\<close> and on that \<open>z\<close>, for
  the batch size of \<open>x\<close>; the call log holds the guide call and these calls and nothing
  else; the decoded image of a particle is the first value the decoder returned; and
  the image returned is the entrywise mean of the decoded images: it has their shape,
  and each of its entries is the sum of their entries at that place divided by the
  number of particles.  With one particle it is the decoded image itself.  The draws
  are independent in that each is a fresh draw of the generator from the one
  distribution.
\<close>

theorem C8_reconstruct_is_mean_of_decodes:
  assumes run: "reconstruct ev x age sex ventricle_volume brain_volume num_particles w = (Inr r, w')"
      and pos: "1 \<le> num_particles"
  shows "\<exists>zv guide_trace g s n ps.
           guide ev (params w)
             [(''x'', x), (''sex'', sex), (''age'', age),
              (''ventricle_volume'', ventricle_volume), (''brain_volume'', brain_volume)] (rng w)
             = (Inr (zv, guide_trace), g)
         \<and> map_of guide_trace ''z'' = Some s
         \<and> shape0 x = Inr n
         \<and> spec_particles ev (params w) (site_fn s)
              [(''sex'', sex), (''age'', age), (''ventricle_volume'', ventricle_volume),
               (''brain_volume'', brain_volume)] n (nat num_particles) g
             = Some (ps, rng w')
         \<and> length ps = nat num_particles
         \<and> calls w' = calls w
              @ GuideCall [(''x'', x), (''sex'', sex), (''age'', age),
                  (''ventricle_volume'', ventricle_volume), (''brain_volume'', brain_volume)]
              # particle_calls (site_fn s)
                  [(''sex'', sex), (''age'', age), (''ventricle_volume'', ventricle_volume),
                   (''brain_volume'', brain_volume)] n ps
         \<and> list_all (\<lambda>(z, outs). outs \<noteq> [] \<and> shape (hd outs) = shape r) ps
         \<and> length (entries r)
             = foldl min (length (entries (hd (snd (hd ps)))))
                 (map (\<lambda>(z, outs). length (entries (hd outs))) (tl ps))
         \<and> (\<forall>j<length (entries r).
               entries r ! j = spec_mean_entry (map (\<lambda>(z, outs). hd outs) ps) j)
         \<and> (num_particles = 1 \<longrightarrow> r = hd (snd (hd ps)))"
proof -
  let ?obs = "[(''x'', x), (''sex'', sex), (''age'', age),
                  (''ventricle_volume'', ventricle_volume), (''brain_volume'', brain_volume)]"
  let ?data = "[(''sex'', sex), (''age'', age), (''ventricle_volume'', ventricle_volume),
                   (''brain_volume'', brain_volume)]"
  obtain r1 w1 where g: "guide_z_dist ev ?obs w = (r1, w1)" by fastforce
  from run g obtain zd where zd: "r1 = Inr zd"
    by (cases r1) (auto simp: reconstruct_def)
  from guide_z_dist_Inr[of ev ?obs w zd w1] g zd obtain zv gt s where
    gd: "guide ev (params w) ?obs (rng w) = (Inr (zv, gt), rng w1)"
    and zs: "map_of gt ''z'' = Some s" and zdf: "zd = site_fn s"
    and p1: "params w1 = params w" and cg: "calls w1 = calls w @ [GuideCall ?obs]"
    by blast
  obtain r2 w2 where l: "reconstruct_loop ev zd x ?data (nat num_particles) [] w1 = (r2, w2)"
    by fastforce
  from run g zd l obtain recons where rec: "r2 = Inr recons" and w2: "w2 = w'"
    and mean: "stack_mean recons = Inr r"
    by (cases r2) (auto simp: reconstruct_def)
  from pos obtain k where k: "nat num_particles = Suc k" by (cases "nat num_particles") auto
  from reconstruct_loop_shape0[of ev zd x ?data k "[]" w1 recons w2] l rec k
  obtain n where n: "shape0 x = Inr n" by auto
  from reconstruct_loop_Inr[of ev zd x ?data "nat num_particles" "[]" w1 recons w2 n] l rec n
  obtain ps where ps: "spec_particles ev (params w1) zd ?data n (nat num_particles) (rng w1)
                         = Some (ps, rng w2)"
      "length ps = nat num_particles"
      "calls w2 = calls w1 @ particle_calls zd ?data n ps"
      "list_all (\<lambda>(z, outs). outs \<noteq> []) ps"
      "recons = map (\<lambda>(z, outs). hd outs) ps" by auto
  from ps(2) k obtain p ps' where pc: "ps = p # ps'" by (cases ps) auto
  have one: "r = hd (snd (hd ps))" if "num_particles = 1"
  proof -
    from that ps(2) pc have "ps = [p]" by simp
    moreover obtain z outs where "p = (z, outs)" by fastforce
    ultimately show ?thesis using ps(5) mean by (simp add: stack_mean_single)
  qed
  note sm = stack_mean_entries[OF mean]
  have shapes: "list_all (\<lambda>(z, outs). outs \<noteq> [] \<and> shape (hd outs) = shape r) ps"
    using sm(2) ps(4) unfolding ps(5) by (auto simp: list_all_iff)
  have len: "length (entries r)
             = foldl min (length (entries (hd (snd (hd ps)))))
                 (map (\<lambda>(z, outs). length (entries (hd outs))) (tl ps))"
    using sm(3) unfolding ps(5) pc by (cases p) (simp add: comp_def case_prod_unfold)
  have ent: "\<forall>j<length (entries r). entries r ! j = spec_mean_entry (map (\<lambda>(z, outs). hd outs) ps) j"
    using sm(4) unfolding ps(5) by blast
  have sp: "spec_particles ev (params w) (site_fn s) ?data n (nat num_particles) (rng w1)
              = Some (ps, rng w')"
    using ps(1) p1 zdf w2 by simp
  have cl: "calls w' = calls w @ GuideCall ?obs # particle_calls (site_fn s) ?data n ps"
    using ps(3) cg w2 zdf by simp
  from gd zs n sp ps(2) cl shapes len ent one show ?thesis by blast
qed

lemma demo_call_sample:
  "call_sample demo_env (demo_data @ [(''z'', z)]) n w =
     (Inr [z, demo_tensor 0],
      w\<lparr>calls := calls w @ [SampleCall (demo_data @ [(''z'', z)]) n (Inr [z, demo_tensor 0])]\<rparr>)"
  by (simp add: call_sample_def demo_env_def demo_data_def)

lemma demo_call_pyro_sample:
  "call_pyro_sample demo_env zd w =
     (Inr (demo_tensor (of_nat (rng w))),
      w\<lparr>rng := Suc (rng w),
         calls := calls w @ [PyroSampleCall zd (Inr (demo_tensor (of_nat (rng w))))]\<rparr>)"
  by (simp add: call_pyro_sample_def demo_env_def)

lemma demo_reconstruct_loop_step:
  "reconstruct_loop demo_env zd (demo_tensor 10) demo_data (Suc k) recons w =
     reconstruct_loop demo_env zd (demo_tensor 10) demo_data k
       (recons @ [demo_tensor (of_nat (rng w))])
       (w\<lparr>rng := Suc (rng w),
          calls := calls w @ [PyroSampleCall zd (Inr (demo_tensor (of_nat (rng w)))),
                              SampleCall (demo_data @ [(''z'', demo_tensor (of_nat (rng w)))]) 1
                                (Inr [demo_tensor (of_nat (rng w)), demo_tensor 0])]\<rparr>)"
proof -
  have n: "shape0 (demo_tensor 10) = Inr 1"
    by (simp add: shape0_def demo_tensor_def)
  show ?thesis
    by (simp add: demo_call_pyro_sample demo_call_sample n)
qed

lemma demo_reconstruct_loop_two:
  "reconstruct_loop demo_env zd (demo_tensor 10) demo_data (Suc (Suc 0)) []
       (demo_world\<lparr>rng := 1, calls := [GuideCall demo_obs]\<rparr>) =
     (Inr [demo_tensor 1, demo_tensor 2],
      demo_world\<lparr>rng := 3,
        calls := GuideCall demo_obs
          # particle_calls zd demo_data 1
              [(demo_tensor 1, [demo_tensor 1, demo_tensor 0]),
               (demo_tensor 2, [demo_tensor 2, demo_tensor 0])]\<rparr>)"
  by (simp add: demo_reconstruct_loop_step particle_calls_Cons demo_world_def
        del: reconstruct_loop.simps(2))

lemma demo_reconstruct:
  "reconstruct demo_env (demo_tensor 10) (demo_tensor 60) (demo_tensor 1) (demo_tensor 20)
       (demo_tensor 30) 2 demo_world =
     (Inr (demo_tensor (3 / 2)),
      demo_world\<lparr>rng := 3,
        calls := GuideCall demo_obs
          # particle_calls (Dist ''Normal'' [])
              [(''sex'', demo_tensor 1), (''age'', demo_tensor 60),
               (''ventricle_volume'', demo_tensor 20), (''brain_volume'', demo_tensor 30)] 1
              [(demo_tensor 1, [demo_tensor 1, demo_tensor 0]),
               (demo_tensor 2, [demo_tensor 2, demo_tensor 0])]\<rparr>)"
proof -
  have two: "nat 2 = Suc (Suc 0)" by simp
  have g: "guide_z_dist demo_env
             [(''x'', demo_tensor 10), (''sex'', demo_tensor 1), (''age'', demo_tensor 60),
              (''ventricle_volume'', demo_tensor 20), (''brain_volume'', demo_tensor 30)] demo_world
           = (Inr (Dist ''Normal'' []), demo_world\<lparr>rng := 1, calls := [GuideCall demo_obs]\<rparr>)"
    using demo_guide_z_dist by (simp add: demo_obs_def)
  have l: "reconstruct_loop demo_env (Dist ''Normal'' []) (demo_tensor 10)
             [(''sex'', demo_tensor 1), (''age'', demo_tensor 60),
              (''ventricle_volume'', demo_tensor 20), (''brain_volume'', demo_tensor 30)]
             (Suc (Suc 0)) [] (demo_world\<lparr>rng := Suc 0, calls := [GuideCall demo_obs]\<rparr>) =
           (Inr [demo_tensor 1, demo_tensor 2],
            demo_world\<lparr>rng := 3,
              calls := GuideCall demo_obs
                # particle_calls (Dist ''Normal'' [])
                    [(''sex'', demo_tensor 1), (''age'', demo_tensor 60),
                     (''ventricle_volume'', demo_tensor 20), (''brain_volume'', demo_tensor 30)] 1
                    [(demo_tensor 1, [demo_tensor 1, demo_tensor 0]),
                     (demo_tensor 2, [demo_tensor 2, demo_tensor 0])]\<rparr>)"
    using demo_reconstruct_loop_two[of "Dist ''Normal'' []"] by (simp add: demo_data_def)
  have mean: "stack_mean [demo_tensor 1, demo_tensor 2] = Inr (demo_tensor (3 / 2))"
    by (simp add: stack_mean_def scalar_div_count_def demo_tensor_def)
  show ?thesis
    unfolding reconstruct_def g two by (simp add: l mean del: reconstruct_loop.simps(2))
qed

lemma demo_reconstruct_one:
  "reconstruct demo_env (demo_tensor 10) (demo_tensor 60) (demo_tensor 1) (demo_tensor 20)
       (demo_tensor 30) 1 demo_world =
     (Inr (demo_tensor 1),
      demo_world\<lparr>rng := 2,
        calls := [GuideCall demo_obs,
                  PyroSampleCall (Dist ''Normal'' []) (Inr (demo_tensor 1)),
                  SampleCall (demo_data @ [(''z'', demo_tensor 1)]) 1
                    (Inr [demo_tensor 1, demo_tensor 0])]\<rparr>)"
proof -
  have one: "nat 1 = Suc 0" by simp
  have g: "guide_z_dist demo_env
             [(''x'', demo_tensor 10), (''sex'', demo_tensor 1), (''age'', demo_tensor 60),
              (''ventricle_volume'', demo_tensor 20), (''brain_volume'', demo_tensor 30)] demo_world
           = (Inr (Dist ''Normal'' []), demo_world\<lparr>rng := 1, calls := [GuideCall demo_obs]\<rparr>)"
    using demo_guide_z_dist by (simp add: demo_obs_def)
  have l: "reconstruct_loop demo_env (Dist ''Normal'' []) (demo_tensor 10)
             [(''sex'', demo_tensor 1), (''age'', demo_tensor 60),
              (''ventricle_volume'', demo_tensor 20), (''brain_volume'', demo_tensor 30)]
             (Suc 0) [] (demo_world\<lparr>rng := Suc 0, calls := [GuideCall demo_obs]\<rparr>) =
           (Inr [demo_tensor 1],
            demo_world\<lparr>rng := 2,
              calls := [GuideCall demo_obs,
                  PyroSampleCall (Dist ''Normal'' []) (Inr (demo_tensor 1)),
                  SampleCall (demo_data @ [(''z'', demo_tensor 1)]) 1
                    (Inr [demo_tensor 1, demo_tensor 0])]\<rparr>)"
    using demo_reconstruct_loop_step[of "Dist ''Normal'' []" 0 "[]"
            "demo_world\<lparr>rng := Suc 0, calls := [GuideCall demo_obs]\<rparr>"]
    by (simp add: demo_data_def demo_world_def)
  show ?thesis
    unfolding reconstruct_def g one
    by (simp add: l stack_mean_single del: reconstruct_loop.simps(2))
qed

lemma demo_guide:
  "guide demo_env (params demo_world) demo_obs (rng demo_world)
     = (Inr (demo_tensor 9, demo_guide_trace), 1)"
  by (simp add: demo_env_def demo_world_def)

lemma demo_guide_z_site:
  "map_of demo_guide_trace ''z'' = Some (demo_site (Val (- 7)))"
  "site_fn (demo_site (Val (- 7))) = Dist ''Normal'' []"
  by (simp_all add: demo_guide_trace_def demo_site_def)

lemma demo_spec_particles:
  "spec_particles demo_env (params demo_world) (Dist ''Normal'' []) demo_data 1 (Suc (Suc 0)) 1
     = Some ([(demo_tensor 1, [demo_tensor 1, demo_tensor 0]),
              (demo_tensor 2, [demo_tensor 2, demo_tensor 0])], 3)"
  "spec_particles demo_env (params demo_world) (Dist ''Normal'' []) demo_data 1 (Suc 0) 1
     = Some ([(demo_tensor 1, [demo_tensor 1, demo_tensor 0])], 2)"
  by (simp_all add: demo_env_def demo_data_def)

text \<open>
  The theorem of claim C8 at the concrete observation, with two particles and with one.
\<close>

theorem C8_reconstruct_is_mean_of_decodes_witness:
  "guide demo_env (params demo_world) demo_obs (rng demo_world)
     = (Inr (demo_tensor 9, demo_guide_trace), 1)
   \<and> map_of demo_guide_trace ''z'' = Some (demo_site (Val (- 7)))
   \<and> site_fn (demo_site (Val (- 7))) = Dist ''Normal'' []
   \<and> (1::int) \<le> 2
   \<and> fst (reconstruct demo_env (demo_tensor 10) (demo_tensor 60) (demo_tensor 1) (demo_tensor 20)
       (demo_tensor 30) 2 demo_world) = Inr (demo_tensor (3 / 2))
   \<and> calls (snd (reconstruct demo_env (demo_tensor 10) (demo_tensor 60) (demo_tensor 1)
                    (demo_tensor 20) (demo_tensor 30) 2 demo_world))
       = GuideCall demo_obs
         # particle_calls (Dist ''Normal'' []) demo_data 1
             [(demo_tensor 1, [demo_tensor 1, demo_tensor 0]),
              (demo_tensor 2, [demo_tensor 2, demo_tensor 0])]
   \<and> entries (demo_tensor (3 / 2)) ! 0 = spec_mean_entry [demo_tensor 1, demo_tensor 2] 0
   \<and> spec_mean_entry [demo_tensor 1, demo_tensor 2] 0 = Val (3 / 2)
   \<and> (1::int) \<le> 1
   \<and> fst (reconstruct demo_env (demo_tensor 10) (demo_tensor 60) (demo_tensor 1) (demo_tensor 20)
         (demo_tensor 30) 1 demo_world) = Inr (demo_tensor 1)
   \<and> calls (snd (reconstruct demo_env (demo_tensor 10) (demo_tensor 60) (demo_tensor 1)
                    (demo_tensor 20) (demo_tensor 30) 1 demo_world))
       = GuideCall demo_obs
         # particle_calls (Dist ''Normal'' []) demo_data 1
             [(demo_tensor 1, [demo_tensor 1, demo_tensor 0])]"
proof -
  have obs: "[(''x'', demo_tensor 10), (''sex'', demo_tensor 1), (''age'', demo_tensor 60),
              (''ventricle_volume'', demo_tensor 20), (''brain_volume'', demo_tensor 30)] = demo_obs"
    by (simp add: demo_obs_def)
  have data: "[(''sex'', demo_tensor 1), (''age'', demo_tensor 60),
               (''ventricle_volume'', demo_tensor 20), (''brain_volume'', demo_tensor 30)] = demo_data"
    by (simp add: demo_data_def)
  have n: "shape0 (demo_tensor 10) = Inr 1"
    by (simp add: shape0_def demo_tensor_def)
  have empty: "calls demo_world = []" by (simp add: demo_world_def)
  have len: "length (entries (demo_tensor (3 / 2))) = 1" by (simp add: demo_tensor_def)
  have sme: "spec_mean_entry [demo_tensor 1, demo_tensor 2] 0 = Val (3 / 2)"
    by (simp add: spec_mean_entry_def scalar_div_count_def demo_tensor_def)
  let ?w2 = "snd (reconstruct demo_env (demo_tensor 10) (demo_tensor 60) (demo_tensor 1)
                    (demo_tensor 20) (demo_tensor 30) 2 demo_world)"
  let ?w1 = "snd (reconstruct demo_env (demo_tensor 10) (demo_tensor 60) (demo_tensor 1)
                    (demo_tensor 20) (demo_tensor 30) 1 demo_world)"
  have run2: "reconstruct demo_env (demo_tensor 10) (demo_tensor 60) (demo_tensor 1) (demo_tensor 20)
       (demo_tensor 30) 2 demo_world = (Inr (demo_tensor (3 / 2)), ?w2)"
    by (simp add: demo_reconstruct)
  have run1: "reconstruct demo_env (demo_tensor 10) (demo_tensor 60) (demo_tensor 1) (demo_tensor 20)
       (demo_tensor 30) 1 demo_world = (Inr (demo_tensor 1), ?w1)"
    by (simp add: demo_reconstruct_one)
  let ?obs = "[(''x'', demo_tensor 10), (''sex'', demo_tensor 1), (''age'', demo_tensor 60),
              (''ventricle_volume'', demo_tensor 20), (''brain_volume'', demo_tensor 30)]"
  let ?data = "[(''sex'', demo_tensor 1), (''age'', demo_tensor 60),
               (''ventricle_volume'', demo_tensor 20), (''brain_volume'', demo_tensor 30)]"
  have dg: "guide demo_env (params demo_world) ?obs (rng demo_world)
              = (Inr (demo_tensor 9, demo_guide_trace), 1)"
    using demo_guide by (simp add: demo_obs_def)
  have sp2: "spec_particles demo_env (params demo_world) (Dist ''Normal'' []) ?data 1 (Suc (Suc 0)) 1
     = Some ([(demo_tensor 1, [demo_tensor 1, demo_tensor 0]),
              (demo_tensor 2, [demo_tensor 2, demo_tensor 0])], 3)"
    using demo_spec_particles(1) by (simp add: demo_data_def)
  have sp1: "spec_particles demo_env (params demo_world) (Dist ''Normal'' []) ?data 1 (Suc 0) 1
     = Some ([(demo_tensor 1, [demo_tensor 1, demo_tensor 0])], 2)"
    using demo_spec_particles(2) by (simp add: demo_data_def)
  have le: "(1::int) \<le> 2" "(1::int) \<le> 1" by simp_all
  have two: "calls ?w2 = GuideCall demo_obs
         # particle_calls (Dist ''Normal'' []) demo_data 1
             [(demo_tensor 1, [demo_tensor 1, demo_tensor 0]),
              (demo_tensor 2, [demo_tensor 2, demo_tensor 0])]
     \<and> entries (demo_tensor (3 / 2)) ! 0 = spec_mean_entry [demo_tensor 1, demo_tensor 2] 0"
  proof -
    from C8_reconstruct_is_mean_of_decodes[OF run2 le(1)]
    obtain zv gt g s m ps where
      a: "guide demo_env (params demo_world) ?obs (rng demo_world) = (Inr (zv, gt), g)"
         "map_of gt ''z'' = Some s" "shape0 (demo_tensor 10) = Inr m"
         "spec_particles demo_env (params demo_world) (site_fn s) ?data m (nat 2) g
            = Some (ps, rng ?w2)"
         "calls ?w2 = calls demo_world @ GuideCall ?obs
            # particle_calls (site_fn s) ?data m ps"
         "\<forall>j<length (entries (demo_tensor (3 / 2))).
            entries (demo_tensor (3 / 2)) ! j = spec_mean_entry (map (\<lambda>(z, outs). hd outs) ps) j"
      by blast
    from a(1) dg have gt: "gt = demo_guide_trace" and g: "g = 1" by simp_all
    from a(2) gt demo_guide_z_site have s: "site_fn s = Dist ''Normal'' []" by simp
    from a(3) n have m: "m = 1" by simp
    have nat2: "nat 2 = Suc (Suc 0)" by simp
    from a(4) sp2
    have ps: "ps = [(demo_tensor 1, [demo_tensor 1, demo_tensor 0]),
                    (demo_tensor 2, [demo_tensor 2, demo_tensor 0])]"
      unfolding s m g nat2 by simp
    from a(6) len have e: "entries (demo_tensor (3 / 2)) ! 0
                          = spec_mean_entry (map (\<lambda>(z, outs). hd outs) ps) 0" by simp
    have c: "calls ?w2 = GuideCall demo_obs
         # particle_calls (Dist ''Normal'' []) demo_data 1
             [(demo_tensor 1, [demo_tensor 1, demo_tensor 0]),
              (demo_tensor 2, [demo_tensor 2, demo_tensor 0])]"
      unfolding demo_obs_def demo_data_def using a(5) unfolding s m ps by (simp add: empty)
    from e c show ?thesis unfolding ps by simp
  qed
  have single: "calls ?w1 = GuideCall demo_obs
         # particle_calls (Dist ''Normal'' []) demo_data 1
             [(demo_tensor 1, [demo_tensor 1, demo_tensor 0])]"
  proof -
    from C8_reconstruct_is_mean_of_decodes[OF run1 le(2)]
    obtain zv gt g s m ps where
      a: "guide demo_env (params demo_world) ?obs (rng demo_world) = (Inr (zv, gt), g)"
         "map_of gt ''z'' = Some s" "shape0 (demo_tensor 10) = Inr m"
         "spec_particles demo_env (params demo_world) (site_fn s) ?data m (nat 1) g
            = Some (ps, rng ?w1)"
         "calls ?w1 = calls demo_world @ GuideCall ?obs
            # particle_calls (site_fn s) ?data m ps"
      by blast
    from a(1) dg have gt: "gt = demo_guide_trace" and g: "g = 1" by simp_all
    from a(2) gt demo_guide_z_site have s: "site_fn s = Dist ''Normal'' []" by simp
    from a(3) n have m: "m = 1" by simp
    have nat1: "nat 1 = Suc 0" by simp
    from a(4) sp1
    have ps: "ps = [(demo_tensor 1, [demo_tensor 1, demo_tensor 0])]"
      unfolding s m g nat1 by simp
    show ?thesis
      unfolding demo_obs_def demo_data_def using a(5) unfolding s m ps by (simp add: empty)
  qed
  have f2: "fst (reconstruct demo_env (demo_tensor 10) (demo_tensor 60) (demo_tensor 1)
       (demo_tensor 20) (demo_tensor 30) 2 demo_world) = Inr (demo_tensor (3 / 2))"
    by (simp add: demo_reconstruct)
  have f1: "fst (reconstruct demo_env (demo_tensor 10) (demo_tensor 60) (demo_tensor 1)
       (demo_tensor 20) (demo_tensor 30) 1 demo_world) = Inr (demo_tensor 1)"
    by (simp add: demo_reconstruct_one)
  from demo_guide demo_guide_z_site le f2 two sme f1 single show ?thesis by blast
qed

section \<open>The wrapper against the estimator it wraps\<close>

lemma CustomELBO_get_trace_refines:
  "fst (CustomELBO_get_trace ev batch w)
     = fst (TraceGraph_get_trace ev batch (w\<lparr>trace_storage := st\<rparr>))
   \<and> (snd (CustomELBO_get_trace ev batch w))\<lparr>trace_storage := st\<rparr>
     = snd (TraceGraph_get_trace ev batch (w\<lparr>trace_storage := st\<rparr>))"
  by (simp add: CustomELBO_get_trace_def TraceGraph_get_trace_def split: prod.splits sum.splits)

lemma get_traces_refines:
  "fst (get_traces (CustomELBO_get_trace ev) n batch w)
     = fst (get_traces (TraceGraph_get_trace ev) n batch (w\<lparr>trace_storage := st\<rparr>))
   \<and> (snd (get_traces (CustomELBO_get_trace ev) n batch w))\<lparr>trace_storage := st\<rparr>
     = snd (get_traces (TraceGraph_get_trace ev) n batch (w\<lparr>trace_storage := st\<rparr>))"
proof (induction n arbitrary: w)
  case 0
  then show ?case by simp
next
  case (Suc n)
  obtain r1 w1 where c: "CustomELBO_get_trace ev batch w = (r1, w1)" by fastforce
  with CustomELBO_get_trace_refines[of ev batch w st]
  have t: "TraceGraph_get_trace ev batch (w\<lparr>trace_storage := st\<rparr>)
             = (r1, w1\<lparr>trace_storage := st\<rparr>)"
    by (cases "TraceGraph_get_trace ev batch (w\<lparr>trace_storage := st\<rparr>)") simp
  show ?case
  proof (cases r1)
    case (Inl e)
    with c t show ?thesis by simp
  next
    case (Inr p)
    obtain r2 w2 where c2: "get_traces (CustomELBO_get_trace ev) n batch w1 = (r2, w2)"
      by fastforce
    with Suc.IH[of w1]
    have t2: "get_traces (TraceGraph_get_trace ev) n batch (w1\<lparr>trace_storage := st\<rparr>)
                = (r2, w2\<lparr>trace_storage := st\<rparr>)"
      by (cases "get_traces (TraceGraph_get_trace ev) n batch (w1\<lparr>trace_storage := st\<rparr>)") simp
    from c t Inr c2 t2 show ?thesis by (cases r2) simp_all
  qed
qed

lemma world_storage_same [simp]: "w\<lparr>trace_storage := trace_storage w\<rparr> = w"
  by simp

text \<open>
  Claim C9.  For every model and guide (the collaborators), particle count, input and
  starting state: the loss computed through \<open>CustomELBO\<close> is the loss computed
  through the estimator it wraps, a failure of one is the same failure of the other,
  and the states they leave (the parameters after the optimizer's update from the
  gradients, the generator, the tracker, the call log) are the same but for
  \<open>trace_storage\<close>.  So it is for \<open>SVI.step\<close> and for \<open>SVI.evaluate_loss\<close>.
\<close>

theorem C9_wrapper_keeps_loss_and_update:
  "fst (SVI_step (CustomELBO_get_trace ev) ev n batch w)
     = fst (SVI_step (TraceGraph_get_trace ev) ev n batch w)
   \<and> (snd (SVI_step (CustomELBO_get_trace ev) ev n batch w))\<lparr>trace_storage := trace_storage w\<rparr>
     = snd (SVI_step (TraceGraph_get_trace ev) ev n batch w)
   \<and> fst (SVI_evaluate_loss (CustomELBO_get_trace ev) ev n batch w)
     = fst (SVI_evaluate_loss (TraceGraph_get_trace ev) ev n batch w)
   \<and> (snd (SVI_evaluate_loss (CustomELBO_get_trace ev) ev n batch w))\<lparr>trace_storage := trace_storage w\<rparr>
     = snd (SVI_evaluate_loss (TraceGraph_get_trace ev) ev n batch w)"
proof -
  obtain r1 w1 where c: "get_traces (CustomELBO_get_trace ev) n batch w = (r1, w1)"
    by fastforce
  with get_traces_refines[of ev n batch w "trace_storage w"]
  have t: "get_traces (TraceGraph_get_trace ev) n batch w
             = (r1, w1\<lparr>trace_storage := trace_storage w\<rparr>)"
    by (cases "get_traces (TraceGraph_get_trace ev) n batch w") simp
  show ?thesis
    by (cases r1) (simp_all add: SVI_step_def SVI_evaluate_loss_def c t)
qed

text \<open>The theorem of claim C9 at the concrete instance with two particles.\<close>

theorem C9_wrapper_keeps_loss_and_update_witness:
  "fst (SVI_step (CustomELBO_get_trace demo_env) demo_env 2 demo_obs demo_world) = Inr (Val 2)
   \<and> fst (SVI_step (TraceGraph_get_trace demo_env) demo_env 2 demo_obs demo_world) = Inr (Val 2)
   \<and> params (snd (SVI_step (TraceGraph_get_trace demo_env) demo_env 2 demo_obs demo_world))
       = [(''sex_logits'', demo_tensor 1)]
   \<and> trace_storage (snd (SVI_step (TraceGraph_get_trace demo_env) demo_env 2 demo_obs demo_world))
       = init_trace_storage"
proof -
  have n: "num_svi_particles demo_experiment = 2" by (simp add: demo_experiment_def)
  have c: "SVI_step (CustomELBO_get_trace demo_env) demo_env 2 demo_obs demo_world
           = (Inr (Val 2),
              demo_world\<lparr>params := dict_set ''sex_logits'' (demo_tensor 1) (params demo_world),
                rng := Suc (Suc (rng demo_world)),
                trace_storage := ((trace_storage demo_world)(''model'' \<mapsto> Some demo_model_trace))
                           (''guide'' \<mapsto> Some demo_model_trace)\<rparr>)"
    using demo_svi_step[of demo_obs demo_world] by (simp add: svi_step_def n)
  from C9_wrapper_keeps_loss_and_update[of demo_env 2 demo_obs demo_world]
  have e1: "fst (SVI_step (TraceGraph_get_trace demo_env) demo_env 2 demo_obs demo_world)
              = fst (SVI_step (CustomELBO_get_trace demo_env) demo_env 2 demo_obs demo_world)"
   and e2: "snd (SVI_step (TraceGraph_get_trace demo_env) demo_env 2 demo_obs demo_world)
              = (snd (SVI_step (CustomELBO_get_trace demo_env) demo_env 2 demo_obs demo_world))
                  \<lparr>trace_storage := trace_storage demo_world\<rparr>"
    by simp_all
  show ?thesis
    unfolding e1 e2 c by (simp add: demo_world_def)
qed

section \<open>Validation and test steps\<close>

lemma prep_batch_params: "params (snd (prep_batch ev batch0 w)) = params w"
  by (auto simp: prep_batch_def split: sum.splits prod.splits)

lemma CustomELBO_get_trace_params: "params (snd (CustomELBO_get_trace ev batch w)) = params w"
  by (auto simp: CustomELBO_get_trace_def TraceGraph_get_trace_def split: sum.splits prod.splits)

lemma get_traces_params:
  "params (snd (get_traces (CustomELBO_get_trace ev) n batch w)) = params w"
proof (induction n arbitrary: w)
  case 0
  then show ?case by simp
next
  case (Suc n)
  obtain r1 w1 where c: "CustomELBO_get_trace ev batch w = (r1, w1)" by fastforce
  with CustomELBO_get_trace_params[of ev batch w] have p1: "params w1 = params w" by simp
  show ?case
  proof (cases r1)
    case (Inl e)
    with c p1 show ?thesis by simp
  next
    case (Inr p)
    obtain r2 w2 where c2: "get_traces (CustomELBO_get_trace ev) n batch w1 = (r2, w2)"
      by fastforce
    with Suc.IH[of w1] p1 have "params w2 = params w" by simp
    with c Inr c2 show ?thesis by (cases r2) simp_all
  qed
qed

lemma svi_evaluate_loss_params:
  "params (snd (svi_evaluate_loss ev ex batch w)) = params w"
proof -
  obtain r1 w1 where c: "get_traces (CustomELBO_get_trace ev) (num_svi_particles ex) batch w = (r1, w1)"
    by fastforce
  with get_traces_params[of ev "num_svi_particles ex" batch w] have "params w1 = params w" by simp
  with c show ?thesis
    by (cases r1) (simp_all add: svi_evaluate_loss_def SVI_evaluate_loss_def)
qed

lemma validation_step_params:
  "params (snd (validation_step ev ex batch0 w)) = params w"
proof -
  obtain r1 w1 where p: "prep_batch ev batch0 w = (r1, w1)" by fastforce
  with prep_batch_params[of ev batch0 w] have p1: "params w1 = params w" by simp
  show ?thesis
  proof (cases r1)
    case (Inl e)
    with p p1 show ?thesis by (simp add: validation_step_def)
  next
    case (Inr batch)
    obtain r2 w2 where l: "svi_evaluate_loss ev ex batch w1 = (r2, w2)" by fastforce
    with svi_evaluate_loss_params[of ev ex batch w1] p1 have "params w2 = params w" by simp
    with p Inr l show ?thesis
      by (cases r2) (simp_all add: validation_step_def split: sum.splits)
  qed
qed

lemma loss_and_metrics:
  assumes "get_trace_metrics w = Inr ms"
  shows "dict_assign [(''loss'', loss)] ms = (''loss'', loss) # ms"
proof -
  from get_trace_metrics_Inr[OF assms] obtain px page psex pz qz where
    "ms = [(''log p(x)'', px), (''log p(age)'', page), (''log p(sex)'', psex),
           (''log p(ventricle_volume)'', psex), (''log p(brain_volume)'', psex),
           (''log p(z) - log q(z)'', scalar_sub pz qz), (''p(z)'', pz), (''q(z)'', qz)]"
    by blast
  then show ?thesis by simp
qed

text \<open>
  Claim C10.  \<open>test_step\<close> is \<open>validation_step\<close>.  A validation step leaves every
  parameter as it was, whatever it returns or raises.  It prepares the batch with
  \<open>prep_batch\<close> as \<open>training_step\<close> does: where \<open>prep_batch\<close> raises, both steps
  raise the same error in the same state; where it returns, the loss is evaluated on
  the prepared batch, the metrics are read by \<open>get_trace_metrics\<close> from the state the
  evaluation left, and the step returns the mapping with \<open>'loss'\<close> followed by the
  metrics.
\<close>

theorem C10_validation_only_evaluates:
  "test_step ev ex batch0 w = validation_step ev ex batch0 w
   \<and> params (snd (validation_step ev ex batch0 w)) = params w
   \<and> (prep_batch ev batch0 w = (Inl e, w1) \<longrightarrow>
        validation_step ev ex batch0 w = (Inl e, w1)
        \<and> training_step ev ex batch0 w = (Inl e, w1))
   \<and> (prep_batch ev batch0 w = (Inr batch, w1)
        \<and> svi_evaluate_loss ev ex batch w1 = (Inr loss, w2)
        \<and> get_trace_metrics w2 = Inr ms \<longrightarrow>
        validation_step ev ex batch0 w = (Inr ((''loss'', loss) # ms), w2))"
proof (intro conjI impI)
  show "test_step ev ex batch0 w = validation_step ev ex batch0 w"
    by (simp add: test_step_def validation_step_def)
  show "params (snd (validation_step ev ex batch0 w)) = params w"
    by (rule validation_step_params)
next
  assume "prep_batch ev batch0 w = (Inl e, w1)"
  then show "validation_step ev ex batch0 w = (Inl e, w1)"
    and "training_step ev ex batch0 w = (Inl e, w1)"
    by (simp_all add: validation_step_def training_step_def)
next
  assume a: "prep_batch ev batch0 w = (Inr batch, w1)
        \<and> svi_evaluate_loss ev ex batch w1 = (Inr loss, w2)
        \<and> get_trace_metrics w2 = Inr ms"
  with loss_and_metrics[of w2 ms loss]
  show "validation_step ev ex batch0 w = (Inr ((''loss'', loss) # ms), w2)"
    by (simp add: validation_step_def)
qed

lemma demo_svi_evaluate_loss:
  "svi_evaluate_loss demo_env demo_experiment batch w =
     (Inr (Val 2),
      w\<lparr>rng := Suc (Suc (rng w)),
        trace_storage := ((trace_storage w)(''model'' \<mapsto> Some demo_model_trace))
                           (''guide'' \<mapsto> Some demo_model_trace)\<rparr>)"
  by (simp add: svi_evaluate_loss_def SVI_evaluate_loss_def get_traces_2 demo_get_trace_any
        demo_experiment_def)
     (simp add: demo_env_def)

lemma demo_prep_batch_missing:
  "prep_batch demo_env (tl demo_batch) demo_world = (Inl (KeyError ''image''), demo_world)"
  by (simp add: prep_batch_def dict_get_def demo_batch_def)

text \<open>
  The theorem of claim C10 at the concrete batch and at the same batch without its
  image; the training step on the concrete batch does change a parameter.
\<close>

theorem C10_validation_only_evaluates_witness:
  "prep_batch demo_env demo_batch demo_world = (Inr demo_prepared, demo_world\<lparr>rng := 1\<rparr>)
   \<and> fst (svi_evaluate_loss demo_env demo_experiment demo_prepared (demo_world\<lparr>rng := 1\<rparr>))
       = Inr (Val 2)
   \<and> fst (validation_step demo_env demo_experiment demo_batch demo_world)
       = Inr ((''loss'', Val 2) # demo_metrics_list)
   \<and> fst (test_step demo_env demo_experiment demo_batch demo_world)
       = Inr ((''loss'', Val 2) # demo_metrics_list)
   \<and> params (snd (validation_step demo_env demo_experiment demo_batch demo_world)) = []
   \<and> params (snd (training_step demo_env demo_experiment demo_batch demo_world))
       = [(''sex_logits'', demo_tensor 1)]
   \<and> prep_batch demo_env (tl demo_batch) demo_world = (Inl (KeyError ''image''), demo_world)
   \<and> validation_step demo_env demo_experiment (tl demo_batch) demo_world
       = (Inl (KeyError ''image''), demo_world)
   \<and> training_step demo_env demo_experiment (tl demo_batch) demo_world
       = (Inl (KeyError ''image''), demo_world)"
proof -
  have missing: "validation_step demo_env demo_experiment (tl demo_batch) demo_world
       = (Inl (KeyError ''image''), demo_world)
     \<and> training_step demo_env demo_experiment (tl demo_batch) demo_world
       = (Inl (KeyError ''image''), demo_world)"
    using C10_validation_only_evaluates[of demo_env demo_experiment "tl demo_batch" demo_world
            "KeyError ''image''" demo_world] demo_prep_batch_missing
    by blast
  let ?w1 = "demo_world\<lparr>rng := 1\<rparr>"
  let ?w2 = "snd (svi_evaluate_loss demo_env demo_experiment demo_prepared ?w1)"
  have l: "svi_evaluate_loss demo_env demo_experiment demo_prepared ?w1 = (Inr (Val 2), ?w2)"
    by (simp add: demo_svi_evaluate_loss)
  have m: "get_trace_metrics ?w2 = Inr demo_metrics_list"
    by (simp add: demo_svi_evaluate_loss demo_metrics_any[of _ "trace_storage ?w1"]
          demo_metrics_list_def)
  from C10_validation_only_evaluates[of demo_env demo_experiment demo_batch demo_world
         _ ?w1 demo_prepared "Val 2" ?w2 demo_metrics_list]
       demo_prep_batch_demo(1) l m
  have main: "validation_step demo_env demo_experiment demo_batch demo_world
             = (Inr ((''loss'', Val 2) # demo_metrics_list), ?w2)
    \<and> test_step demo_env demo_experiment demo_batch demo_world
             = validation_step demo_env demo_experiment demo_batch demo_world
    \<and> params (snd (validation_step demo_env demo_experiment demo_batch demo_world))
             = params demo_world"
    by blast
  from main have v: "validation_step demo_env demo_experiment demo_batch demo_world
             = (Inr ((''loss'', Val 2) # demo_metrics_list), ?w2)" by blast
  from main have t: "test_step demo_env demo_experiment demo_batch demo_world
             = validation_step demo_env demo_experiment demo_batch demo_world" by blast
  from main have p: "params (snd (validation_step demo_env demo_experiment demo_batch demo_world))
             = params demo_world" by blast
  have pw: "params demo_world = []" by (simp add: demo_world_def)
  have vd: "validate demo_experiment" by (simp add: demo_experiment_def)
  have tr: "params (snd (training_step demo_env demo_experiment demo_batch demo_world))
              = [(''sex_logits'', demo_tensor 1)]"
    by (simp add: training_step_def demo_prep_batch_demo demo_print_trace_updates demo_svi_step
          demo_metrics_any[of _ "trace_storage demo_world"] vd)
       (simp add: demo_world_def)
  have fv: "fst (validation_step demo_env demo_experiment demo_batch demo_world)
              = Inr ((''loss'', Val 2) # demo_metrics_list)"
    by (simp add: v)
  have ft: "fst (test_step demo_env demo_experiment demo_batch demo_world)
              = Inr ((''loss'', Val 2) # demo_metrics_list)"
    by (simp add: t v)
  have fl: "fst (svi_evaluate_loss demo_env demo_experiment demo_prepared ?w1) = Inr (Val 2)"
    by (simp add: demo_svi_evaluate_loss)
  from demo_prep_batch_demo(1) fl fv ft p pw tr missing demo_prep_batch_missing
  show ?thesis by simp
qed

end
